theory Spec2Isabelle
  imports Main "HOL-Library.Sublist"
begin

section \<open>JavaScript values\<close>

text \<open>
  A field typed \<open>string | null | undefined\<close> is a \<open>string option\<close>; \<open>None\<close> stands for
  both \<open>null\<close> and \<open>undefined\<close>, which the code under study never tells apart.
  The empty string is a value of its own: it is present, and falsy.
\<close>

text \<open>\<open>v || d\<close> with a string default.\<close>

definition orElse :: "string option \<Rightarrow> string \<Rightarrow> string" where
  "orElse v d = (case v of None \<Rightarrow> d | Some s \<Rightarrow> if s = [] then d else s)"

text \<open>
  \<open>v || undefined\<close>: the string when \<open>v\<close> is truthy, that is a string other than the
  empty one. A test \<open>!v\<close> fails exactly when this is \<open>Some s\<close>, and \<open>s\<close> is then the
  value read from \<open>v\<close>.
\<close>

definition present :: "string option \<Rightarrow> string option" where
  "present v = (case v of None \<Rightarrow> None | Some s \<Rightarrow> if s = [] then None else Some s)"

text \<open>\<open>${v}\<close> in a template literal, for a field that is a string or \<open>undefined\<close>.\<close>

definition tmpl :: "string option \<Rightarrow> string" where
  "tmpl v = (case v of None \<Rightarrow> ''undefined'' | Some s \<Rightarrow> s)"

definition dq :: string where
  "dq = [CHR 0x22]"

definition nl :: string where
  "nl = [CHR 0x0A]"

text \<open>\<open>Array.prototype.join\<close> on strings.\<close>

fun join :: "string \<Rightarrow> string list \<Rightarrow> string" where
  "join sep [] = []"
| "join sep [x] = x"
| "join sep (x # y # ys) = x @ sep @ join sep (y # ys)"

text \<open>A template literal prints an array length in decimal.\<close>

definition digit :: "nat \<Rightarrow> char" where
  "digit d =
     (if d = 0 then CHR ''0'' else if d = 1 then CHR ''1'' else if d = 2 then CHR ''2''
      else if d = 3 then CHR ''3'' else if d = 4 then CHR ''4'' else if d = 5 then CHR ''5''
      else if d = 6 then CHR ''6'' else if d = 7 then CHR ''7'' else if d = 8 then CHR ''8''
      else CHR ''9'')"

fun show_nat :: "nat \<Rightarrow> string" where
  "show_nat n = (if n < 10 then [digit n] else show_nat (n div 10) @ [digit (n mod 10)])"

declare show_nat.simps [simp del]

text \<open>\<open>s.startsWith(p)\<close>.\<close>

definition startsWith :: "string \<Rightarrow> string \<Rightarrow> bool" where
  "startsWith s p = (take (length p) s = p)"


section \<open>The remote task service\<close>

text \<open>
  \<open>Schema$Task\<close> and \<open>Schema$TaskList\<close>, with the fields the operations read. The
  bookkeeping fields (link, etag, position and so on) are read by \<open>formatTask\<close> only,
  which is a parameter below.
\<close>

record task =
  t_id :: "string option"
  t_title :: "string option"
  t_notes :: "string option"
  t_due :: "string option"
  t_status :: "string option"
  t_parent :: "string option"

record tasklist =
  l_id :: "string option"
  l_title :: "string option"

text \<open>The request body of \<open>tasks.insert\<close> and of \<open>tasks.patch\<close>.\<close>

record task_body =
  b_title :: string
  b_notes :: string
  b_due :: "string option"
  b_status :: string

record task_patch =
  p_id :: string
  p_title :: "string option"
  p_notes :: "string option"
  p_due :: "string option"
  p_status :: "string option"

record tasks_page =
  pg_items :: "task list option"
  pg_nextPageToken :: "string option"

text \<open>
  Every call the operations issue, with its parameters. \<open>TasksInsert\<close> carries the
  \<open>parent\<close> parameter of the call, which is not part of the body. The \<open>tasklist\<close>
  parameter of an insert is a string everywhere but in the loop that executes the moves
  planned by \<open>reorganizeTasks\<close>, where it is what a lookup in a plain object gave: a
  string, or the value every object inherits under the name looked up.
  \<open>TasksInsertInherited name body\<close> is the insert whose \<open>tasklist\<close> parameter is the
  value inherited under \<open>name\<close>; it has no \<open>parent\<close> parameter.
\<close>

datatype call =
    TasklistsList nat
  | TasklistsInsert string
  | TasklistsUpdate string string string
  | TasklistsDelete string
  | TasksList "string option" nat "string option"
  | TasksGet string string
  | TasksInsert string task_body "string option"
  | TasksInsertInherited string task_body
  | TasksPatch string string task_patch
  | TasksDelete "string option" string

text \<open>
  The remote service answers each call with data or with an error, of which the code
  reads the message only. The answer may depend on every call issued so far, so the state
  threaded through an operation is the list of calls, oldest first. An answer that is not
  an error carries its data, as the type of the client says: the tests of the source for a
  response without data (\<open>taskResponse?.data\<close>, \<open>!originalTask\<close>) have no branch of
  their own here.
\<close>

record remote =
  tasklists_list :: "call list \<Rightarrow> nat \<Rightarrow> string + tasklist list option"
  tasklists_insert :: "call list \<Rightarrow> string \<Rightarrow> string + tasklist"
  tasklists_update :: "call list \<Rightarrow> string \<Rightarrow> string \<Rightarrow> string \<Rightarrow> string + tasklist"
  tasklists_delete :: "call list \<Rightarrow> string \<Rightarrow> string + unit"
  tasks_list :: "call list \<Rightarrow> string option \<Rightarrow> nat \<Rightarrow> string option \<Rightarrow> string + tasks_page"
  tasks_get :: "call list \<Rightarrow> string \<Rightarrow> string \<Rightarrow> string + task"
  tasks_insert :: "call list \<Rightarrow> string \<Rightarrow> task_body \<Rightarrow> string option \<Rightarrow> string + task"
  tasks_insert_inherited :: "call list \<Rightarrow> string \<Rightarrow> task_body \<Rightarrow> string + task"
  tasks_patch :: "call list \<Rightarrow> string \<Rightarrow> string \<Rightarrow> task_patch \<Rightarrow> string + task"
  tasks_delete :: "call list \<Rightarrow> string option \<Rightarrow> string \<Rightarrow> string + unit"

definition api_tasklists_list ::
  "remote \<Rightarrow> nat \<Rightarrow> call list \<Rightarrow> (string + tasklist list option) \<times> call list" where
  "api_tasklists_list r n h = (tasklists_list r h n, h @ [TasklistsList n])"

definition api_tasklists_insert ::
  "remote \<Rightarrow> string \<Rightarrow> call list \<Rightarrow> (string + tasklist) \<times> call list" where
  "api_tasklists_insert r ttl h = (tasklists_insert r h ttl, h @ [TasklistsInsert ttl])"

definition api_tasklists_update ::
  "remote \<Rightarrow> string \<Rightarrow> string \<Rightarrow> string \<Rightarrow> call list \<Rightarrow> (string + tasklist) \<times> call list" where
  "api_tasklists_update r lst i ttl h =
     (tasklists_update r h lst i ttl, h @ [TasklistsUpdate lst i ttl])"

definition api_tasklists_delete ::
  "remote \<Rightarrow> string \<Rightarrow> call list \<Rightarrow> (string + unit) \<times> call list" where
  "api_tasklists_delete r lst h = (tasklists_delete r h lst, h @ [TasklistsDelete lst])"

definition api_tasks_list ::
  "remote \<Rightarrow> string option \<Rightarrow> nat \<Rightarrow> string option \<Rightarrow> call list
     \<Rightarrow> (string + tasks_page) \<times> call list" where
  "api_tasks_list r lst n tok h = (tasks_list r h lst n tok, h @ [TasksList lst n tok])"

definition api_tasks_get ::
  "remote \<Rightarrow> string \<Rightarrow> string \<Rightarrow> call list \<Rightarrow> (string + task) \<times> call list" where
  "api_tasks_get r lst t h = (tasks_get r h lst t, h @ [TasksGet lst t])"

definition api_tasks_insert ::
  "remote \<Rightarrow> string \<Rightarrow> task_body \<Rightarrow> string option \<Rightarrow> call list
     \<Rightarrow> (string + task) \<times> call list" where
  "api_tasks_insert r lst b par h = (tasks_insert r h lst b par, h @ [TasksInsert lst b par])"

definition api_tasks_insert_inherited ::
  "remote \<Rightarrow> string \<Rightarrow> task_body \<Rightarrow> call list \<Rightarrow> (string + task) \<times> call list" where
  "api_tasks_insert_inherited r name b h =
     (tasks_insert_inherited r h name b, h @ [TasksInsertInherited name b])"

definition api_tasks_patch ::
  "remote \<Rightarrow> string \<Rightarrow> string \<Rightarrow> task_patch \<Rightarrow> call list
     \<Rightarrow> (string + task) \<times> call list" where
  "api_tasks_patch r lst t b h = (tasks_patch r h lst t b, h @ [TasksPatch lst t b])"

definition api_tasks_delete ::
  "remote \<Rightarrow> string option \<Rightarrow> string \<Rightarrow> call list \<Rightarrow> (string + unit) \<times> call list" where
  "api_tasks_delete r lst t h = (tasks_delete r h lst t, h @ [TasksDelete lst t])"

definition MAX_TASK_RESULTS :: nat where
  "MAX_TASK_RESULTS = 100"


section \<open>Batch operations\<close>

text \<open>
  The \<open>tasks\<close>, \<open>lists\<close> or \<open>subtasks\<close> argument of a batch operation: absent, some
  value that is not an array, or an array. An element of the array is an object whose
  fields, when present, are strings: a finite map from field names to strings.
\<close>

datatype 'a array_arg = Missing | NotArray | Array "'a list"

type_synonym bag = "string \<rightharpoonup> string"

text \<open>
  What a batch operation computes: the two arrays it fills, the first line of its text
  (the counts), and the flag. The remaining lines of the text print one line for each entry
  of the arrays and are not modelled.
\<close>

record ('v, 'e) report =
  rep_results :: "'v list"
  rep_errors :: "'e list"
  rep_summary :: string
  rep_isError :: bool

text \<open>
  The loop of every two-array batch operation: the body handles one element and either
  pushes to \<open>errors\<close> (the validation failure, or the \<open>catch\<close>) or to \<open>results\<close>.
\<close>

fun batch_loop ::
  "('a \<Rightarrow> call list \<Rightarrow> ('e + 'v) \<times> call list) \<Rightarrow> 'a list \<Rightarrow> 'v list \<Rightarrow> 'e list \<Rightarrow> call list
     \<Rightarrow> 'v list \<times> 'e list \<times> call list" where
  "batch_loop body [] results errors h = (results, errors, h)"
| "batch_loop body (x # xs) results errors h =
     (case body x h of
        (Inl e, h') \<Rightarrow> batch_loop body xs results (errors @ [e]) h'
      | (Inr v, h') \<Rightarrow> batch_loop body xs (results @ [v]) errors h')"

definition counts :: "string \<Rightarrow> 'v list \<Rightarrow> 'e list \<Rightarrow> string" where
  "counts what results errors =
     what @ '': '' @ show_nat (length results) @ '' succeeded, ''
       @ show_nat (length errors) @ '' failed''"

definition batch_run ::
  "string \<Rightarrow> string \<Rightarrow> ('a \<Rightarrow> call list \<Rightarrow> ('e + 'v) \<times> call list) \<Rightarrow> 'a array_arg \<Rightarrow> call list
     \<Rightarrow> (string + ('v, 'e) report) \<times> call list" where
  "batch_run what required body batch h =
     (case batch of
        Array (x # xs) \<Rightarrow>
          (case batch_loop body (x # xs) [] [] h of
             (results, errors, h') \<Rightarrow>
               (Inr \<lparr>rep_results = results, rep_errors = errors,
                     rep_summary = counts what results errors, rep_isError = False\<rparr>, h'))
      | _ \<Rightarrow> (Inl required, h))"

record task_result =
  r_taskId :: "string option"
  r_title :: "string option"
  r_taskListId :: string

definition newTask :: "bag \<Rightarrow> string \<Rightarrow> task_body" where
  "newTask taskData title =
     \<lparr>b_title = title, b_notes = orElse (taskData ''notes'') [], b_due = taskData ''due'',
      b_status = orElse (taskData ''status'') ''needsAction''\<rparr>"

definition createTask ::
  "remote \<Rightarrow> bag \<Rightarrow> call list \<Rightarrow> ((string \<times> bag) + task_result) \<times> call list" where
  "createTask r taskData h =
     (let taskListId = orElse (taskData ''taskListId'') ''@default'' in
      case present (taskData ''title'') of
        None \<Rightarrow> (Inl (''Task title is required'', taskData), h)
      | Some title \<Rightarrow>
          (case api_tasks_insert r taskListId (newTask taskData title) None h of
             (Inl msg, h') \<Rightarrow> (Inl (msg, taskData), h')
           | (Inr resp, h') \<Rightarrow>
               (Inr \<lparr>r_taskId = t_id resp, r_title = t_title resp,
                     r_taskListId = taskListId\<rparr>, h')))"

definition batchCreateTasks ::
  "remote \<Rightarrow> bag array_arg \<Rightarrow> call list
     \<Rightarrow> (string + (task_result, string \<times> bag) report) \<times> call list" where
  "batchCreateTasks r =
     batch_run ''Batch task creation'' ''tasks array is required and must not be empty''
       (createTask r)"

definition updateTask ::
  "remote \<Rightarrow> bag \<Rightarrow> call list \<Rightarrow> ((string \<times> bag) + task_result) \<times> call list" where
  "updateTask r taskData h =
     (case (present (taskData ''taskListId''), present (taskData ''taskId'')) of
        (Some taskListId, Some taskId) \<Rightarrow>
          (case api_tasks_patch r taskListId taskId
                  \<lparr>p_id = taskId, p_title = taskData ''title'', p_notes = taskData ''notes'',
                   p_due = taskData ''due'', p_status = taskData ''status''\<rparr> h of
             (Inl msg, h') \<Rightarrow> (Inl (msg, taskData), h')
           | (Inr resp, h') \<Rightarrow>
               (Inr \<lparr>r_taskId = t_id resp, r_title = t_title resp,
                     r_taskListId = taskListId\<rparr>, h'))
      | _ \<Rightarrow> (Inl (''Task list ID and task ID are required'', taskData), h))"

definition batchUpdateTasks ::
  "remote \<Rightarrow> bag array_arg \<Rightarrow> call list
     \<Rightarrow> (string + (task_result, string \<times> bag) report) \<times> call list" where
  "batchUpdateTasks r =
     batch_run ''Batch task update'' ''tasks array is required and must not be empty''
       (updateTask r)"

text \<open>A result of \<open>batchDeleteTasks\<close> is the pair \<open>(taskId, taskListId)\<close>.\<close>

definition deleteTask ::
  "remote \<Rightarrow> bag \<Rightarrow> call list \<Rightarrow> ((string \<times> bag) + (string \<times> string)) \<times> call list" where
  "deleteTask r taskData h =
     (case (present (taskData ''taskListId''), present (taskData ''taskId'')) of
        (Some taskListId, Some taskId) \<Rightarrow>
          (case api_tasks_delete r (Some taskListId) taskId h of
             (Inl msg, h') \<Rightarrow> (Inl (msg, taskData), h')
           | (Inr _, h') \<Rightarrow> (Inr (taskId, taskListId), h'))
      | _ \<Rightarrow> (Inl (''Task list ID and task ID are required'', taskData), h))"

definition batchDeleteTasks ::
  "remote \<Rightarrow> bag array_arg \<Rightarrow> call list
     \<Rightarrow> (string + (string \<times> string, string \<times> bag) report) \<times> call list" where
  "batchDeleteTasks r =
     batch_run ''Batch task deletion'' ''tasks array is required and must not be empty''
       (deleteTask r)"

text \<open>A result of the list operations is the pair \<open>(listId, title)\<close> of the response.\<close>

definition createTaskList ::
  "remote \<Rightarrow> bag \<Rightarrow> call list
     \<Rightarrow> ((string \<times> bag) + (string option \<times> string option)) \<times> call list" where
  "createTaskList r listData h =
     (case present (listData ''title'') of
        None \<Rightarrow> (Inl (''Task list title is required'', listData), h)
      | Some title \<Rightarrow>
          (case api_tasklists_insert r title h of
             (Inl msg, h') \<Rightarrow> (Inl (msg, listData), h')
           | (Inr resp, h') \<Rightarrow> (Inr (l_id resp, l_title resp), h')))"

definition batchCreateTaskLists ::
  "remote \<Rightarrow> bag array_arg \<Rightarrow> call list
     \<Rightarrow> (string + (string option \<times> string option, string \<times> bag) report) \<times> call list" where
  "batchCreateTaskLists r =
     batch_run ''Batch task list creation'' ''lists array is required and must not be empty''
       (createTaskList r)"

definition updateTaskList ::
  "remote \<Rightarrow> bag \<Rightarrow> call list
     \<Rightarrow> ((string \<times> bag) + (string option \<times> string option)) \<times> call list" where
  "updateTaskList r listData h =
     (case (present (listData ''listId''), present (listData ''title'')) of
        (Some listId, Some title) \<Rightarrow>
          (case api_tasklists_update r listId listId title h of
             (Inl msg, h') \<Rightarrow> (Inl (msg, listData), h')
           | (Inr resp, h') \<Rightarrow> (Inr (l_id resp, l_title resp), h'))
      | _ \<Rightarrow> (Inl (''Task list ID and title are required'', listData), h))"

definition batchUpdateTaskLists ::
  "remote \<Rightarrow> bag array_arg \<Rightarrow> call list
     \<Rightarrow> (string + (string option \<times> string option, string \<times> bag) report) \<times> call list" where
  "batchUpdateTaskLists r =
     batch_run ''Batch task list update'' ''lists array is required and must not be empty''
       (updateTaskList r)"

text \<open>A result of \<open>batchDeleteTaskLists\<close> is the \<open>listId\<close>.\<close>

definition deleteTaskList ::
  "remote \<Rightarrow> bag \<Rightarrow> call list \<Rightarrow> ((string \<times> bag) + string) \<times> call list" where
  "deleteTaskList r listData h =
     (case present (listData ''listId'') of
        None \<Rightarrow> (Inl (''Task list ID is required'', listData), h)
      | Some listId \<Rightarrow>
          (case api_tasklists_delete r listId h of
             (Inl msg, h') \<Rightarrow> (Inl (msg, listData), h')
           | (Inr _, h') \<Rightarrow> (Inr listId, h')))"

definition batchDeleteTaskLists ::
  "remote \<Rightarrow> bag array_arg \<Rightarrow> call list
     \<Rightarrow> (string + (string, string \<times> bag) report) \<times> call list" where
  "batchDeleteTaskLists r =
     batch_run ''Batch task list deletion'' ''lists array is required and must not be empty''
       (deleteTaskList r)"

record subtask_result =
  s_taskId :: "string option"
  s_title :: "string option"
  s_parentTaskId :: string
  s_taskListId :: string

definition createSubtaskOf ::
  "remote \<Rightarrow> bag \<Rightarrow> call list \<Rightarrow> ((string \<times> bag) + subtask_result) \<times> call list" where
  "createSubtaskOf r subtaskData h =
     (let taskListId = orElse (subtaskData ''taskListId'') ''@default'' in
      case (present (subtaskData ''parentTaskId''), present (subtaskData ''title'')) of
        (Some parentTaskId, Some title) \<Rightarrow>
          (case api_tasks_get r taskListId parentTaskId h of
             (Inl msg, h1) \<Rightarrow> (Inl (''Could not verify parent task: '' @ msg, subtaskData), h1)
           | (Inr _, h1) \<Rightarrow>
               (case api_tasks_insert r taskListId (newTask subtaskData title)
                       (Some parentTaskId) h1 of
                  (Inl msg, h2) \<Rightarrow> (Inl (msg, subtaskData), h2)
                | (Inr resp, h2) \<Rightarrow>
                    (Inr \<lparr>s_taskId = t_id resp, s_title = t_title resp,
                          s_parentTaskId = parentTaskId, s_taskListId = taskListId\<rparr>, h2)))
      | _ \<Rightarrow> (Inl (''Parent task ID and title are required'', subtaskData), h))"

definition batchCreateSubtasks ::
  "remote \<Rightarrow> bag array_arg \<Rightarrow> call list
     \<Rightarrow> (string + (subtask_result, string \<times> bag) report) \<times> call list" where
  "batchCreateSubtasks r =
     batch_run ''Batch subtask creation'' ''subtasks array is required and must not be empty''
       (createSubtaskOf r)"


section \<open>Moving a task to another list\<close>

text \<open>
  \<open>moveTask\<close> and the body of the loop of \<open>batchMoveTasks\<close> run the same three steps,
  written twice in the source: get the task, insert a copy, delete the original. A failure
  of the first two steps is thrown to the enclosing \<open>catch\<close> with its message; a failure
  of the delete is the third outcome, which the two callers report differently.
\<close>

definition copyOf :: "task \<Rightarrow> task_body" where
  "copyOf originalTask =
     \<lparr>b_title = orElse (t_title originalTask) ''Untitled Task'',
      b_notes = orElse (t_notes originalTask) [],
      b_due = present (t_due originalTask),
      b_status = orElse (t_status originalTask) ''needsAction''\<rparr>"

text \<open>
  The title of the task and the id of the copy, and the message of the delete that failed.
\<close>

datatype transfer_outcome =
    Deleted string string
  | NotDeleted string string string

definition transfer ::
  "remote \<Rightarrow> string \<Rightarrow> string \<Rightarrow> string \<Rightarrow> call list \<Rightarrow> (string + transfer_outcome) \<times> call list" where
  "transfer r sourceTaskListId targetTaskListId taskId h =
     (case api_tasks_get r sourceTaskListId taskId h of
        (Inl msg, h1) \<Rightarrow> (Inl (''Could not get source task: '' @ msg), h1)
      | (Inr originalTask, h1) \<Rightarrow>
          (case present (t_title originalTask) of
             None \<Rightarrow>
               (Inl ''Could not get source task: Task not found or has invalid format'', h1)
           | Some title \<Rightarrow>
               (case api_tasks_insert r targetTaskListId (copyOf originalTask) None h1 of
                  (Inl msg, h2) \<Rightarrow> (Inl (''Could not create task in target list: '' @ msg), h2)
                | (Inr resp, h2) \<Rightarrow>
                    (case present (t_id resp) of
                       None \<Rightarrow>
                         (Inl (''Could not create task in target list: ''
                                 @ ''Failed to create new task - no ID returned''), h2)
                     | Some newTaskId \<Rightarrow>
                         (case api_tasks_delete r (Some sourceTaskListId) taskId h2 of
                            (Inl msg, h3) \<Rightarrow> (Inr (NotDeleted title newTaskId msg), h3)
                          | (Inr _, h3) \<Rightarrow> (Inr (Deleted title newTaskId), h3))))))"

text \<open>The result envelope of a tool: the text of its one content item, and the flag.\<close>

record tool_result =
  content :: string
  isError :: bool

definition moveTask ::
  "remote \<Rightarrow> string option \<Rightarrow> string option \<Rightarrow> string option \<Rightarrow> call list
     \<Rightarrow> (string + tool_result) \<times> call list" where
  "moveTask r sourceTaskListId targetTaskListId taskId h =
     (case (present sourceTaskListId, present targetTaskListId, present taskId) of
        (Some src, Some tgt, Some tid) \<Rightarrow>
          (case transfer r src tgt tid h of
             (Inl msg, h') \<Rightarrow>
               (Inr \<lparr>content = ''Error moving task: '' @ msg, isError = True\<rparr>, h')
           | (Inr (NotDeleted title newTaskId msg), h') \<Rightarrow>
               (Inr \<lparr>content = ''Task '' @ dq @ title @ dq @ '' was copied to list '' @ dq @ tgt
                        @ dq @ '' but could not be deleted from source list.''
                        @ '' You may need to delete it manually.'',
                     isError = False\<rparr>, h')
           | (Inr (Deleted title newTaskId), h') \<Rightarrow>
               (Inr \<lparr>content = ''Task '' @ dq @ title @ dq @ '' moved from list '' @ dq @ src
                        @ dq @ '' to list '' @ dq @ tgt @ dq,
                     isError = False\<rparr>, h'))
      | _ \<Rightarrow>
          (Inl ''Source task list ID, target task list ID, and task ID are required'', h))"

record move_result =
  m_originalTaskId :: string
  m_newTaskId :: string
  m_title :: string
  m_sourceTaskListId :: string
  m_targetTaskListId :: string

record move_warning =
  w_warning :: string
  w_moveData :: bag
  w_originalTaskId :: string
  w_newTaskId :: string
  w_title :: string

datatype move_entry = Result move_result | Warning move_warning | Error "string \<times> bag"

definition moveOne :: "remote \<Rightarrow> bag \<Rightarrow> call list \<Rightarrow> move_entry \<times> call list" where
  "moveOne r moveData h =
     (case (present (moveData ''sourceTaskListId''), present (moveData ''targetTaskListId''),
            present (moveData ''taskId'')) of
        (Some src, Some tgt, Some tid) \<Rightarrow>
          (case transfer r src tgt tid h of
             (Inl msg, h') \<Rightarrow> (Error (msg, moveData), h')
           | (Inr (NotDeleted title newTaskId msg), h') \<Rightarrow>
               (Warning \<lparr>w_warning = ''Created task '' @ newTaskId @ '' in '' @ tgt
                            @ '' but failed to delete original: '' @ msg,
                          w_moveData = moveData, w_originalTaskId = tid,
                          w_newTaskId = newTaskId, w_title = title\<rparr>, h')
           | (Inr (Deleted title newTaskId), h') \<Rightarrow>
               (Result \<lparr>m_originalTaskId = tid, m_newTaskId = newTaskId, m_title = title,
                         m_sourceTaskListId = src, m_targetTaskListId = tgt\<rparr>, h'))
      | _ \<Rightarrow>
          (Error (''Source task list ID, target task list ID, and task ID are required'',
                  moveData), h))"

fun batchMove_loop ::
  "remote \<Rightarrow> bag list \<Rightarrow> move_result list \<Rightarrow> (string \<times> bag) list \<Rightarrow> move_warning list
     \<Rightarrow> call list \<Rightarrow> move_result list \<times> (string \<times> bag) list \<times> move_warning list \<times> call list" where
  "batchMove_loop r [] results errors warnings h = (results, errors, warnings, h)"
| "batchMove_loop r (moveData # rest) results errors warnings h =
     (case moveOne r moveData h of
        (Error e, h') \<Rightarrow> batchMove_loop r rest results (errors @ [e]) warnings h'
      | (Warning w, h') \<Rightarrow> batchMove_loop r rest results errors (warnings @ [w]) h'
      | (Result v, h') \<Rightarrow> batchMove_loop r rest (results @ [v]) errors warnings h')"

definition moveLine :: "move_result \<Rightarrow> string" where
  "moveLine v =
     ''- Task '' @ dq @ m_title v @ dq @ '' moved from list '' @ dq @ m_sourceTaskListId v
       @ dq @ '' to list '' @ dq @ m_targetTaskListId v @ dq"

definition warningLine :: "move_warning \<Rightarrow> string" where
  "warningLine w =
     ''- Task '' @ dq @ w_title w @ dq @ '' copied to list '' @ dq
       @ tmpl (w_moveData w ''targetTaskListId'') @ dq @ '' but not removed from '' @ dq
       @ tmpl (w_moveData w ''sourceTaskListId'') @ dq"

definition errorLine :: "string \<times> bag \<Rightarrow> string" where
  "errorLine e = ''- Failed to move task: '' @ fst e"

definition moveText ::
  "move_result list \<Rightarrow> (string \<times> bag) list \<Rightarrow> move_warning list \<Rightarrow> string" where
  "moveText results errors warnings =
     (''Batch task move: '' @ show_nat (length results) @ '' succeeded, ''
        @ show_nat (length errors) @ '' failed''
        @ (if warnings \<noteq> []
           then '', '' @ show_nat (length warnings) @ '' partial (created but not deleted)''
           else []))
     @ (nl @ nl @ ''Successes:'' @ nl @ join nl (map moveLine results)
        @ (if warnings \<noteq> []
           then nl @ nl @ ''Partial Successes (created but not deleted from source):'' @ nl
                  @ join nl (map warningLine warnings)
           else [])
        @ (if errors \<noteq> []
           then nl @ nl @ ''Errors:'' @ nl @ join nl (map errorLine errors)
           else []))"

record move_report =
  mv_results :: "move_result list"
  mv_errors :: "(string \<times> bag) list"
  mv_warnings :: "move_warning list"
  mv_result :: tool_result

definition batchMoveTasks ::
  "remote \<Rightarrow> bag array_arg \<Rightarrow> call list \<Rightarrow> (string + move_report) \<times> call list" where
  "batchMoveTasks r taskBatch h =
     (case taskBatch of
        Array (x # xs) \<Rightarrow>
          (case batchMove_loop r (x # xs) [] [] [] h of
             (results, errors, warnings, h') \<Rightarrow>
               (Inr \<lparr>mv_results = results, mv_errors = errors, mv_warnings = warnings,
                     mv_result = \<lparr>content = moveText results errors warnings,
                                  isError = False\<rparr>\<rparr>, h'))
      | _ \<Rightarrow> (Inl ''tasks array is required and must not be empty'', h))"


section \<open>Resources: reading one task, listing a page of tasks\<close>

definition listsOf :: "tasklist list option \<Rightarrow> tasklist list" where
  "listsOf its = (case its of None \<Rightarrow> [] | Some ls \<Rightarrow> ls)"

definition itemsOf :: "tasks_page \<Rightarrow> task list" where
  "itemsOf page = (case pg_items page of None \<Rightarrow> [] | Some ts \<Rightarrow> ts)"

text \<open>\<open>s.replace(pat, "")\<close> with a string pattern: the first occurrence is removed.\<close>

fun removeFirst :: "string \<Rightarrow> string \<Rightarrow> string" where
  "removeFirst pat [] = []"
| "removeFirst pat (c # cs) =
     (if startsWith (c # cs) pat then drop (length pat) (c # cs)
      else c # removeFirst pat cs)"

fun read_loop :: "remote \<Rightarrow> string \<Rightarrow> tasklist list \<Rightarrow> call list \<Rightarrow> task option \<times> call list" where
  "read_loop r taskId [] h = (None, h)"
| "read_loop r taskId (taskList # rest) h =
     (case present (l_id taskList) of
        None \<Rightarrow> read_loop r taskId rest h
      | Some listId \<Rightarrow>
          (case api_tasks_get r listId taskId h of
             (Inr found, h') \<Rightarrow> (Some found, h')
           | (Inl _, h') \<Rightarrow> read_loop r taskId rest h'))"

definition TaskResources_read ::
  "remote \<Rightarrow> string \<Rightarrow> call list \<Rightarrow> (string + task) \<times> call list" where
  "TaskResources_read r uri h =
     (let taskId = removeFirst ''gtasks:///'' uri in
      case api_tasklists_list r MAX_TASK_RESULTS h of
        (Inl msg, h1) \<Rightarrow> (Inl msg, h1)
      | (Inr its, h1) \<Rightarrow>
          (case read_loop r taskId (listsOf its) h1 of
             (None, h2) \<Rightarrow> (Inl ''Task not found'', h2)
           | (Some found, h2) \<Rightarrow> (Inr found, h2)))"

definition pageSize :: nat where
  "pageSize = 10"

fun list_loop ::
  "remote \<Rightarrow> string option \<Rightarrow> tasklist list \<Rightarrow> task list \<Rightarrow> string option \<Rightarrow> call list
     \<Rightarrow> (string + task list \<times> string option) \<times> call list" where
  "list_loop r pageToken [] allTasks nextTok h = (Inr (allTasks, nextTok), h)"
| "list_loop r pageToken (taskList # rest) allTasks nextTok h =
     (case api_tasks_list r (l_id taskList) pageSize pageToken h of
        (Inl msg, h') \<Rightarrow> (Inl msg, h')
      | (Inr page, h') \<Rightarrow>
          list_loop r pageToken rest (allTasks @ itemsOf page)
            (case present (pg_nextPageToken page) of None \<Rightarrow> nextTok | Some t \<Rightarrow> Some t) h')"

definition TaskResources_list ::
  "remote \<Rightarrow> string option \<Rightarrow> call list \<Rightarrow> (string + task list \<times> string option) \<times> call list" where
  "TaskResources_list r cursor h =
     (case api_tasklists_list r MAX_TASK_RESULTS h of
        (Inl msg, h1) \<Rightarrow> (Inl msg, h1)
      | (Inr its, h1) \<Rightarrow> list_loop r (present cursor) (listsOf its) [] None h1)"


section \<open>The enumeration used by the tools\<close>

text \<open>A task with the list it was found in attached.\<close>

record atask =
  a_task :: task
  a_taskListId :: "string option"
  a_taskListTitle :: "string option"

definition withListInfo :: "tasklist \<Rightarrow> task \<Rightarrow> atask" where
  "withListInfo taskList t =
     \<lparr>a_task = t, a_taskListId = present (l_id taskList),
      a_taskListTitle = present (l_title taskList)\<rparr>"

fun private_list_loop ::
  "remote \<Rightarrow> tasklist list \<Rightarrow> atask list \<Rightarrow> call list \<Rightarrow> atask list \<times> call list" where
  "private_list_loop r [] allTasks h = (allTasks, h)"
| "private_list_loop r (taskList # rest) allTasks h =
     (case present (l_id taskList) of
        None \<Rightarrow> private_list_loop r rest allTasks h
      | Some listId \<Rightarrow>
          (case api_tasks_list r (Some listId) MAX_TASK_RESULTS None h of
             (Inl _, h') \<Rightarrow> private_list_loop r rest allTasks h'
           | (Inr page, h') \<Rightarrow>
               private_list_loop r rest
                 (allTasks @ map (withListInfo taskList) (itemsOf page)) h'))"

text \<open>\<open>TaskActions._list\<close>.\<close>

definition private_list :: "remote \<Rightarrow> call list \<Rightarrow> (string + atask list) \<times> call list" where
  "private_list r h =
     (case api_tasklists_list r MAX_TASK_RESULTS h of
        (Inl msg, h1) \<Rightarrow> (Inl msg, h1)
      | (Inr its, h1) \<Rightarrow>
          (case private_list_loop r (listsOf its) [] h1 of
             (allTasks, h2) \<Rightarrow> (Inr allTasks, h2)))"


section \<open>Reorganizing tasks by title prefix\<close>

text \<open>
  The two lookups from list title to list id are plain objects, created as \<open>{}\<close>. Such an
  object holds the properties the code assigned to it, and a name it was never assigned
  reads as what every object inherits under that name from \<open>Object.prototype\<close>: a
  function, or the prototype itself for \<open>__proto__\<close>. \<open>inheritedNames\<close> are the names
  every object inherits. Assigning a string to \<open>__proto__\<close> is ignored, so that name is
  never stored.
\<close>

definition inheritedNames :: "string list" where
  "inheritedNames =
     [''constructor'', ''hasOwnProperty'', ''isPrototypeOf'', ''propertyIsEnumerable'',
      ''toLocaleString'', ''toString'', ''valueOf'', ''__proto__'', ''__defineGetter__'',
      ''__defineSetter__'', ''__lookupGetter__'', ''__lookupSetter__'']"

text \<open>What a lookup gives: a string that was stored, or the value inherited under a name.\<close>

datatype list_ref = ListId string | Inherited string

text \<open>\<open>obj[key] = v\<close> and \<open>obj[key]\<close>, for an object whose stored properties are \<open>obj\<close>.\<close>

definition setProperty :: "(string \<rightharpoonup> string) \<Rightarrow> string \<Rightarrow> string \<Rightarrow> (string \<rightharpoonup> string)" where
  "setProperty obj key v = (if key = ''__proto__'' then obj else obj(key \<mapsto> v))"

definition getProperty :: "(string \<rightharpoonup> string) \<Rightarrow> string \<Rightarrow> list_ref option" where
  "getProperty obj key =
     (case obj key of
        Some v \<Rightarrow> Some (ListId v)
      | None \<Rightarrow> if key \<in> set inheritedNames then Some (Inherited key) else None)"

text \<open>
  The value when it is truthy: a string that is not empty, a function or an object.
\<close>

definition truthy :: "list_ref option \<Rightarrow> list_ref option" where
  "truthy v =
     (case v of
        Some (ListId s) \<Rightarrow> if s = [] then None else Some (ListId s)
      | Some (Inherited name) \<Rightarrow> Some (Inherited name)
      | None \<Rightarrow> None)"

text \<open>
  \<open>normalizeTitle\<close> stands for the function \<open>s.toLowerCase().trim()\<close> and is a
  parameter: nothing below depends on what the two built-ins compute.
\<close>

definition listIdByTitle :: "tasklist list \<Rightarrow> (string \<rightharpoonup> string)" where
  "listIdByTitle taskLists =
     fold (\<lambda>l obj. case (present (l_title l), present (l_id l)) of
                      (Some title, Some listId) \<Rightarrow> setProperty obj title listId
                    | _ \<Rightarrow> obj) taskLists Map.empty"

definition listIdByNormalizedTitle :: "(string \<Rightarrow> string) \<Rightarrow> tasklist list \<Rightarrow> (string \<rightharpoonup> string)" where
  "listIdByNormalizedTitle normalizeTitle taskLists =
     fold (\<lambda>l obj. case (present (l_title l), present (l_id l)) of
                      (Some title, Some listId) \<Rightarrow> setProperty obj (normalizeTitle title) listId
                    | _ \<Rightarrow> obj) taskLists Map.empty"

text \<open>
  Exact match first, then the normalized match; \<open>None\<close> when \<open>!targetListId\<close>. The
  variable \<open>targetListId\<close> is declared a string, and holds what the lookup gave.
\<close>

definition resolveTarget :: "(string \<Rightarrow> string) \<Rightarrow> tasklist list \<Rightarrow> string \<Rightarrow> list_ref option" where
  "resolveTarget normalizeTitle taskLists targetListTitle =
     (case truthy (getProperty (listIdByTitle taskLists) targetListTitle) of
        Some targetListId \<Rightarrow> Some targetListId
      | None \<Rightarrow>
          truthy (getProperty (listIdByNormalizedTitle normalizeTitle taskLists)
                    (normalizeTitle targetListTitle)))"

record move_plan =
  pl_task :: atask
  pl_targetListId :: list_ref
  pl_targetListTitle :: string
  pl_prefix :: string

text \<open>
  The inner loop over the entries of \<open>prefixMappings\<close>, in the order of
  \<open>Object.entries\<close>, for one task whose title and list id are truthy. \<open>warns\<close> collects
  the target titles passed to \<open>console.warn\<close>. Both \<open>continue\<close> statements of the source
  go on with the next entry; the \<open>break\<close> after the push ends the loop. The test
  \<open>task.taskListId === targetListId\<close> holds of a stored string equal to the list id of
  the task, and of no inherited value.
\<close>

fun routeTask ::
  "(string \<Rightarrow> list_ref option) \<Rightarrow> atask \<Rightarrow> string \<Rightarrow> string \<Rightarrow> (string \<times> string) list
     \<Rightarrow> move_plan list \<Rightarrow> string list \<Rightarrow> move_plan list \<times> string list" where
  "routeTask resolve t title taskListId [] movePlans warns = (movePlans, warns)"
| "routeTask resolve t title taskListId ((pfx, targetListTitle) # rest) movePlans warns =
     (if startsWith title (''['' @ pfx @ '']'') then
        (case resolve targetListTitle of
           None \<Rightarrow>
             routeTask resolve t title taskListId rest movePlans (warns @ [targetListTitle])
         | Some targetListId \<Rightarrow>
             if ListId taskListId = targetListId
             then routeTask resolve t title taskListId rest movePlans warns
             else (movePlans @ [\<lparr>pl_task = t, pl_targetListId = targetListId,
                                 pl_targetListTitle = targetListTitle, pl_prefix = pfx\<rparr>],
                   warns))
      else routeTask resolve t title taskListId rest movePlans warns)"

fun planMoves ::
  "(string \<Rightarrow> list_ref option) \<Rightarrow> (string \<times> string) list \<Rightarrow> atask list
     \<Rightarrow> move_plan list \<Rightarrow> string list \<Rightarrow> move_plan list \<times> string list" where
  "planMoves resolve prefixMappings [] movePlans warns = (movePlans, warns)"
| "planMoves resolve prefixMappings (t # rest) movePlans warns =
     (case (present (t_title (a_task t)), present (a_taskListId t), present (t_id (a_task t))) of
        (Some title, Some taskListId, Some _) \<Rightarrow>
          (case routeTask resolve t title taskListId prefixMappings movePlans warns of
             (movePlans', warns') \<Rightarrow> planMoves resolve prefixMappings rest movePlans' warns')
      | _ \<Rightarrow> planMoves resolve prefixMappings rest movePlans warns)"

definition fromTo :: "string \<Rightarrow> move_plan \<Rightarrow> string" where
  "fromTo title plan =
     dq @ title @ dq @ '' from '' @ dq
       @ orElse (a_taskListTitle (pl_task plan)) ''Unknown list'' @ dq
       @ '' to '' @ dq @ pl_targetListTitle plan @ dq"

definition failedLine :: "string \<Rightarrow> string \<Rightarrow> string" where
  "failedLine title msg = ''- FAILED to move '' @ dq @ title @ dq @ '': '' @ msg"

text \<open>The body \<open>newTask\<close> built for a planned move whose task has the title \<open>title\<close>.\<close>

definition plannedTask :: "move_plan \<Rightarrow> string \<Rightarrow> task_body" where
  "plannedTask plan title =
     \<lparr>b_title = title,
      b_notes = orElse (t_notes (a_task (pl_task plan))) [],
      b_due = present (t_due (a_task (pl_task plan))),
      b_status = orElse (t_status (a_task (pl_task plan))) ''needsAction''\<rparr>"

text \<open>
  \<open>tasks.tasks.insert\<close> with \<open>tasklist: plan.targetListId\<close> and no \<open>parent\<close>, and the
  call it issues.
\<close>

definition insertCall :: "list_ref \<Rightarrow> task_body \<Rightarrow> call" where
  "insertCall targetListId b =
     (case targetListId of
        ListId lst \<Rightarrow> TasksInsert lst b None
      | Inherited name \<Rightarrow> TasksInsertInherited name b)"

definition api_tasks_insert_into ::
  "remote \<Rightarrow> list_ref \<Rightarrow> task_body \<Rightarrow> call list \<Rightarrow> (string + task) \<times> call list" where
  "api_tasks_insert_into r targetListId b h =
     (case targetListId of
        ListId lst \<Rightarrow> api_tasks_insert r lst b None h
      | Inherited name \<Rightarrow> api_tasks_insert_inherited r name b h)"

text \<open>The loop that executes the planned moves when \<open>dryRun\<close> is false.\<close>

fun executeMoves ::
  "remote \<Rightarrow> move_plan list \<Rightarrow> string list \<Rightarrow> nat \<Rightarrow> nat \<Rightarrow> call list
     \<Rightarrow> string list \<times> nat \<times> nat \<times> call list" where
  "executeMoves r [] results successCount failureCount h =
     (results, successCount, failureCount, h)"
| "executeMoves r (plan # rest) results successCount failureCount h =
     (case (present (t_title (a_task (pl_task plan))), present (t_id (a_task (pl_task plan)))) of
        (Some title, Some taskId) \<Rightarrow>
          (case api_tasks_insert_into r (pl_targetListId plan) (plannedTask plan title) h of
             (Inl msg, h1) \<Rightarrow>
               executeMoves r rest (results @ [failedLine title msg])
                 successCount (failureCount + 1) h1
           | (Inr resp, h1) \<Rightarrow>
               (case present (t_id resp) of
                  None \<Rightarrow>
                    executeMoves r rest
                      (results @ [failedLine title ''Failed to create new task - no ID returned''])
                      successCount (failureCount + 1) h1
                | Some _ \<Rightarrow>
                    (case api_tasks_delete r (a_taskListId (pl_task plan)) taskId h1 of
                       (Inl msg, h2) \<Rightarrow>
                         executeMoves r rest (results @ [failedLine title msg])
                           successCount (failureCount + 1) h2
                     | (Inr _, h2) \<Rightarrow>
                         executeMoves r rest (results @ [''- Moved '' @ fromTo title plan])
                           (successCount + 1) failureCount h2)))
      | _ \<Rightarrow>
          executeMoves r rest (results @ [''- SKIPPED task with missing title or ID''])
            successCount failureCount h)"

definition dryLine :: "move_plan \<Rightarrow> string" where
  "dryLine plan = ''- '' @ fromTo (tmpl (t_title (a_task (pl_task plan)))) plan"

text \<open>
  The first half of the \<open>try\<close> block: the enumeration, the list of lists, the two
  lookups and the planning loop. It yields the planned moves and the warnings, or the
  message of the listing call that failed.
\<close>

definition planStage ::
  "(string \<Rightarrow> string) \<Rightarrow> remote \<Rightarrow> (string \<times> string) list \<Rightarrow> call list
     \<Rightarrow> (string + move_plan list \<times> string list) \<times> call list" where
  "planStage normalizeTitle r prefixMappings h =
     (case private_list r h of
        (Inl msg, h1) \<Rightarrow> (Inl msg, h1)
      | (Inr allTasks, h1) \<Rightarrow>
          (case api_tasklists_list r MAX_TASK_RESULTS h1 of
             (Inl msg, h2) \<Rightarrow> (Inl msg, h2)
           | (Inr its, h2) \<Rightarrow>
               (Inr (planMoves (resolveTarget normalizeTitle (listsOf its)) prefixMappings
                       allTasks [] []), h2)))"

definition summaryLine :: "nat \<Rightarrow> nat \<Rightarrow> string" where
  "summaryLine successCount failureCount =
     nl @ ''Summary: '' @ show_nat successCount @ '' tasks moved successfully, ''
       @ show_nat failureCount @ '' failed.''"

text \<open>
  \<open>prefixMappings\<close> is absent (\<open>None\<close>) or the list of its entries; \<open>dryRun\<close> is the
  argument after \<open>|| false\<close>.
\<close>

definition reorganizeTasks ::
  "(string \<Rightarrow> string) \<Rightarrow> remote \<Rightarrow> (string \<times> string) list option \<Rightarrow> bool \<Rightarrow> call list
     \<Rightarrow> (string + tool_result) \<times> call list" where
  "reorganizeTasks normalizeTitle r prefixMappings dryRun h =
     (case prefixMappings of
        Some (e # es) \<Rightarrow>
          (case planStage normalizeTitle r (e # es) h of
             (Inl msg, h2) \<Rightarrow>
               (Inr \<lparr>content = ''Error reorganizing tasks: '' @ msg, isError = True\<rparr>, h2)
           | (Inr (movePlans, warns), h2) \<Rightarrow>
               if dryRun then
                 (Inr \<lparr>content =
                         join nl ((''Would move '' @ show_nat (length movePlans) @ '' tasks:'')
                                    # map dryLine movePlans),
                       isError = False\<rparr>, h2)
               else
                 (case executeMoves r movePlans
                         [''Moving '' @ show_nat (length movePlans) @ '' tasks:''] 0 0 h2 of
                    (results, successCount, failureCount, h3) \<Rightarrow>
                      (Inr \<lparr>content =
                              join nl (results @ [summaryLine successCount failureCount]),
                            isError = False\<rparr>, h3)))
      | _ \<Rightarrow> (Inl ''Prefix mappings are required and must not be empty'', h))"


section \<open>Listing the subtasks of a task\<close>

text \<open>
  \<open>formatTask\<close> prints one task on one line from all of its fields; it is a parameter
  here, so what follows holds for whatever it prints.
\<close>

definition formatTaskList :: "(atask \<Rightarrow> string) \<Rightarrow> atask list \<Rightarrow> string" where
  "formatTaskList formatTask taskList = join nl (map formatTask taskList)"

definition listSubtasks ::
  "(atask \<Rightarrow> string) \<Rightarrow> remote \<Rightarrow> string option \<Rightarrow> string option \<Rightarrow> call list
     \<Rightarrow> (string + tool_result) \<times> call list" where
  "listSubtasks formatTask r taskListIdArg parentTaskIdArg h =
     (case (present (Some (orElse taskListIdArg ''@default'')), present parentTaskIdArg) of
        (Some taskListId, Some parentTaskId) \<Rightarrow>
          (case api_tasks_list r (Some taskListId) MAX_TASK_RESULTS None h of
             (Inl msg, h1) \<Rightarrow>
               (Inr \<lparr>content = ''Error listing subtasks: '' @ msg, isError = True\<rparr>, h1)
           | (Inr page, h1) \<Rightarrow>
               (case api_tasks_get r taskListId parentTaskId h1 of
                  (Inl msg, h2) \<Rightarrow>
                    (Inr \<lparr>content = ''Error listing subtasks: ''
                                      @ ''Could not get parent task: '' @ msg,
                          isError = True\<rparr>, h2)
                | (Inr parentTask, h2) \<Rightarrow>
                    (let subtasks =
                           map (\<lambda>t. \<lparr>a_task = t, a_taskListId = Some taskListId,
                                      a_taskListTitle = Some []\<rparr>)
                             (filter (\<lambda>t. t_parent t = Some parentTaskId) (itemsOf page))
                     in (Inr \<lparr>content =
                                ''Found '' @ show_nat (length subtasks) @ '' subtasks for ''
                                  @ dq @ orElse (t_title parentTask) ''Unknown task'' @ dq
                                  @ '':'' @ nl @ formatTaskList formatTask subtasks,
                              isError = False\<rparr>, h2))))
      | _ \<Rightarrow> (Inl ''Task list ID and parent task ID are required'', h))"


section \<open>Predicates on calls and results\<close>

fun isTasksInsert :: "call \<Rightarrow> bool" where
  "isTasksInsert (TasksInsert _ _ _) = True"
| "isTasksInsert (TasksInsertInherited _ _) = True"
| "isTasksInsert _ = False"

fun isTasksDelete :: "call \<Rightarrow> bool" where
  "isTasksDelete (TasksDelete _ _) = True"
| "isTasksDelete _ = False"

text \<open>The calls that change the remote state: everything but the two lists and the get.\<close>

fun isMutation :: "call \<Rightarrow> bool" where
  "isMutation (TasklistsList _) = False"
| "isMutation (TasksList _ _ _) = False"
| "isMutation (TasksGet _ _) = False"
| "isMutation _ = True"

text \<open>An operation threw, and the history is the one it started with.\<close>

definition threwAt :: "(string + 'a) \<times> call list \<Rightarrow> call list \<Rightarrow> bool" where
  "threwAt out h = (case out of (Inl _, h') \<Rightarrow> h' = h | (Inr _, _) \<Rightarrow> False)"




text \<open>A batch operation returned, and the flag of its result is false.\<close>

definition unflagged :: "(string + ('v, 'e) report) \<times> call list \<Rightarrow> bool" where
  "unflagged out = (case fst out of Inl _ \<Rightarrow> False | Inr rep \<Rightarrow> \<not> rep_isError rep)"

definition unflaggedMove :: "(string + move_report) \<times> call list \<Rightarrow> bool" where
  "unflaggedMove out =
     (case fst out of Inl _ \<Rightarrow> False | Inr rep \<Rightarrow> \<not> isError (mv_result rep))"


text \<open>
  The list a title names: the id of the last of the lists that have a title and an id
  whose title is the given one or, when there is none, of the last whose normalized title
  is the normalized given one. \<open>foundTarget\<close> is that id as the value of a lookup.
\<close>

definition titled :: "tasklist list \<Rightarrow> (string \<times> string) list" where
  "titled taskLists =
     List.map_filter
       (\<lambda>l. case (present (l_title l), present (l_id l)) of
               (Some title, Some listId) \<Rightarrow> Some (title, listId)
             | _ \<Rightarrow> None) taskLists"

definition foundList :: "(string \<Rightarrow> string) \<Rightarrow> tasklist list \<Rightarrow> string \<Rightarrow> string option" where
  "foundList normalizeTitle taskLists targetListTitle =
     (case map_of (rev (titled taskLists)) targetListTitle of
        Some listId \<Rightarrow> Some listId
      | None \<Rightarrow>
          map_of (rev (map (\<lambda>e. (normalizeTitle (fst e), snd e)) (titled taskLists)))
            (normalizeTitle targetListTitle))"

definition foundTarget :: "(string \<Rightarrow> string) \<Rightarrow> tasklist list \<Rightarrow> string \<Rightarrow> list_ref option" where
  "foundTarget normalizeTitle taskLists targetListTitle =
     map_option ListId (foundList normalizeTitle taskLists targetListTitle)"

text \<open>
  A mapping none of whose target titles is, as written or normalized, a name every object
  inherits.
\<close>

definition plainTargets :: "(string \<Rightarrow> string) \<Rightarrow> (string \<times> string) list \<Rightarrow> bool" where
  "plainTargets normalizeTitle prefixMappings =
     list_all (\<lambda>e. snd e \<notin> set inheritedNames \<and> normalizeTitle (snd e) \<notin> set inheritedNames)
       prefixMappings"

text \<open>
  For a task with the given title and list: an entry of the mapping routes it when its
  prefix matches the title and its target resolves to something other than the id of the
  task's own list; it is unresolved when its prefix matches and its target does not
  resolve.
\<close>

definition routable ::
  "(string \<Rightarrow> list_ref option) \<Rightarrow> string \<Rightarrow> string \<Rightarrow> string \<times> string \<Rightarrow> bool" where
  "routable resolve title taskListId e =
     (startsWith title (''['' @ fst e @ '']'')
      \<and> (case resolve (snd e) of
            None \<Rightarrow> False
          | Some targetListId \<Rightarrow> targetListId \<noteq> ListId taskListId))"

definition unresolved :: "(string \<Rightarrow> list_ref option) \<Rightarrow> string \<Rightarrow> string \<times> string \<Rightarrow> bool" where
  "unresolved resolve title e =
     (startsWith title (''['' @ fst e @ '']'') \<and> resolve (snd e) = None)"

text \<open>The plan an entry gives for a task, when its target resolves.\<close>

definition planOf :: "(string \<Rightarrow> list_ref option) \<Rightarrow> atask \<Rightarrow> string \<times> string \<Rightarrow> move_plan list" where
  "planOf resolve t e =
     (case resolve (snd e) of
        None \<Rightarrow> []
      | Some targetListId \<Rightarrow>
          [\<lparr>pl_task = t, pl_targetListId = targetListId, pl_targetListTitle = snd e,
            pl_prefix = fst e\<rparr>])"

text \<open>
  Routing by the first routable entry: the plan (none or one) of a task, and the targets
  warned about for it, which are those of the unresolved entries before that entry. A task
  without a title, a list id or an id of its own has neither.
\<close>

definition firstRoute ::
  "(string \<Rightarrow> list_ref option) \<Rightarrow> (string \<times> string) list \<Rightarrow> atask \<Rightarrow> move_plan list" where
  "firstRoute resolve prefixMappings t =
     (case (present (t_title (a_task t)), present (a_taskListId t), present (t_id (a_task t))) of
        (Some title, Some taskListId, Some _) \<Rightarrow>
          (case find (routable resolve title taskListId) prefixMappings of
             None \<Rightarrow> []
           | Some e \<Rightarrow> planOf resolve t e)
      | _ \<Rightarrow> [])"

definition warnedFor ::
  "(string \<Rightarrow> list_ref option) \<Rightarrow> (string \<times> string) list \<Rightarrow> atask \<Rightarrow> string list" where
  "warnedFor resolve prefixMappings t =
     (case (present (t_title (a_task t)), present (a_taskListId t), present (t_id (a_task t))) of
        (Some title, Some taskListId, Some _) \<Rightarrow>
          map snd (filter (unresolved resolve title)
                     (takeWhile (\<lambda>e. \<not> routable resolve title taskListId e) prefixMappings))
      | _ \<Rightarrow> [])"

text \<open>
  The calls of one planned move, paired with whether it was counted as a success: such a
  move issued the insert and the delete; one counted as a failure issued the insert alone,
  or the insert and the delete.
\<close>

definition moved :: "move_plan \<Rightarrow> call list \<times> bool \<Rightarrow> bool" where
  "moved plan b =
     (case (t_title (a_task (pl_task plan)), t_id (a_task (pl_task plan))) of
        (Some title, Some taskId) \<Rightarrow>
          (if snd b
           then fst b = [insertCall (pl_targetListId plan) (plannedTask plan title),
                         TasksDelete (a_taskListId (pl_task plan)) taskId]
           else fst b = [insertCall (pl_targetListId plan) (plannedTask plan title)]
              \<or> fst b = [insertCall (pl_targetListId plan) (plannedTask plan title),
                          TasksDelete (a_taskListId (pl_task plan)) taskId])
      | _ \<Rightarrow> False)"


text \<open>A plan whose task has a title and an id, as the planning loop requires.\<close>

definition planned :: "move_plan \<Rightarrow> bool" where
  "planned p =
     (present (t_title (a_task (pl_task p))) \<noteq> None
      \<and> present (t_id (a_task (pl_task p))) \<noteq> None)"


text \<open>
  The calls issued when every one of the given lists is probed for a task: one get for each
  list that has an id, in the order of the lists.
\<close>

definition probes :: "string \<Rightarrow> tasklist list \<Rightarrow> call list" where
  "probes taskId ls =
     concat (map (\<lambda>l. case present (l_id l) of
                         None \<Rightarrow> []
                       | Some listId \<Rightarrow> [TasksGet listId taskId]) ls)"

text \<open>The calls issued when a page of every one of the given lists is fetched.\<close>

definition fetches :: "string option \<Rightarrow> tasklist list \<Rightarrow> call list" where
  "fetches pageToken ls = map (\<lambda>l. TasksList (l_id l) pageSize pageToken) ls"

text \<open>The last token that is not empty among those of the given pages, if there is one.\<close>

definition lastToken :: "tasks_page list \<Rightarrow> string option" where
  "lastToken pages =
     (case List.map_filter (\<lambda>page. present (pg_nextPageToken page)) pages of
        [] \<Rightarrow> None
      | tok # toks \<Rightarrow> Some (last (tok # toks)))"


section \<open>A sample service\<close>

text \<open>
  A service for the examples: it names the given lists, holds the given tasks in the
  list \<open>inbox\<close> and none in the list \<open>work\<close>, knows no other list, refuses to
  delete the tasks named in \<open>locked\<close>, and finds no list for an insert whose \<open>tasklist\<close>
  parameter is an inherited value.
\<close>

definition gone :: tasklist where
  "gone = \<lparr>l_id = Some ''gone'', l_title = Some ''Gone''\<rparr>"

definition inbox :: tasklist where
  "inbox = \<lparr>l_id = Some ''inbox'', l_title = Some ''Inbox''\<rparr>"

definition work :: tasklist where
  "work = \<lparr>l_id = Some ''work'', l_title = Some ''Work''\<rparr>"

definition plain :: "string \<Rightarrow> string \<Rightarrow> string option \<Rightarrow> task" where
  "plain i ttl par =
     \<lparr>t_id = Some i, t_title = Some ttl, t_notes = None, t_due = None, t_status = None,
      t_parent = par\<rparr>"

definition stored :: "task_body \<Rightarrow> string option \<Rightarrow> task" where
  "stored b par =
     \<lparr>t_id = Some ''fresh'', t_title = Some (b_title b), t_notes = Some (b_notes b),
      t_due = b_due b, t_status = Some (b_status b), t_parent = par\<rparr>"

definition service :: "tasklist list \<Rightarrow> task list \<Rightarrow> string list \<Rightarrow> remote" where
  "service held ts locked =
     \<lparr>tasklists_list = (\<lambda>h n. Inr (Some held)),
      tasklists_insert = (\<lambda>h ttl. Inr \<lparr>l_id = Some ''fresh-list'', l_title = Some ttl\<rparr>),
      tasklists_update = (\<lambda>h lid i ttl. Inr \<lparr>l_id = Some i, l_title = Some ttl\<rparr>),
      tasklists_delete = (\<lambda>h lid. if lid = ''inbox'' then Inl ''Forbidden'' else Inr ()),
      tasks_list = (\<lambda>h lid n tok.
         if lid = Some ''inbox''
         then Inr \<lparr>pg_items = Some (take n ts),
                   pg_nextPageToken = (if n < length ts then Some ''more'' else None)\<rparr>
         else if lid = Some ''work''
         then Inr \<lparr>pg_items = None, pg_nextPageToken = None\<rparr>
         else Inl ''Not Found''),
      tasks_get = (\<lambda>h lid i.
         if lid = ''inbox''
         then (case find (\<lambda>t. t_id t = Some i) ts of
                 Some t \<Rightarrow> Inr t
               | None \<Rightarrow> Inl ''Not Found'')
         else Inl ''Not Found''),
      tasks_insert = (\<lambda>h lid b par. Inr (stored b par)),
      tasks_insert_inherited = (\<lambda>h name b. Inl ''Not Found''),
      tasks_patch = (\<lambda>h lid i p.
         if lid = ''inbox''
         then (case find (\<lambda>t. t_id t = Some i) ts of
                 Some t \<Rightarrow> Inr t
               | None \<Rightarrow> Inl ''Not Found'')
         else Inl ''Not Found''),
      tasks_delete = (\<lambda>h lid i. if i \<in> set locked then Inl ''Forbidden'' else Inr ())\<rparr>"

text \<open>
  The sample service, except that it accepts an insert whose \<open>tasklist\<close> parameter is an
  inherited value.
\<close>

definition lenient :: "tasklist list \<Rightarrow> task list \<Rightarrow> string list \<Rightarrow> remote" where
  "lenient held ts locked =
     (service held ts locked)\<lparr>tasks_insert_inherited := (\<lambda>h name b. Inr (stored b None))\<rparr>"

text \<open>
  The sample service with \<open>inbox\<close> and \<open>work\<close>, except that each list holds one task
  and that the page of each list comes with the given \<open>nextPageToken\<close>.
\<close>

definition paged :: "string option \<Rightarrow> string option \<Rightarrow> remote" where
  "paged tokenA tokenB =
     (service [inbox, work] [] [])
       \<lparr>tasks_list := (\<lambda>h lid n tok.
          if lid = Some ''inbox''
          then Inr \<lparr>pg_items = Some [plain ''a1'' ''First'' None], pg_nextPageToken = tokenA\<rparr>
          else if lid = Some ''work''
          then Inr \<lparr>pg_items = Some [plain ''b1'' ''Second'' None], pg_nextPageToken = tokenB\<rparr>
          else Inl ''Not Found'')\<rparr>"

text \<open>A service that answers every call with the same error.\<close>

definition offline :: remote where
  "offline =
     \<lparr>tasklists_list = (\<lambda>h n. Inl ''Service unavailable''),
      tasklists_insert = (\<lambda>h ttl. Inl ''Service unavailable''),
      tasklists_update = (\<lambda>h lid i ttl. Inl ''Service unavailable''),
      tasklists_delete = (\<lambda>h lid. Inl ''Service unavailable''),
      tasks_list = (\<lambda>h lid n tok. Inl ''Service unavailable''),
      tasks_get = (\<lambda>h lid i. Inl ''Service unavailable''),
      tasks_insert = (\<lambda>h lid b par. Inl ''Service unavailable''),
      tasks_insert_inherited = (\<lambda>h name b. Inl ''Service unavailable''),
      tasks_patch = (\<lambda>h lid i p. Inl ''Service unavailable''),
      tasks_delete = (\<lambda>h lid i. Inl ''Service unavailable'')\<rparr>"


section \<open>Facts about the values\<close>

lemma present_None: "present None = None"
  by (simp add: present_def)

lemma present_Some: "s \<noteq> [] \<Longrightarrow> present (Some s) = Some s"
  by (simp add: present_def)

lemma present_SomeD: "present v = Some s \<Longrightarrow> v = Some s"
  by (auto simp add: present_def split: option.splits if_splits)

lemma present_cases: "present v = (if v = Some [] then None else v)"
  by (simp add: present_def split: option.splits)


section \<open>Batch operations account for every element\<close>








section \<open>Validation of the top-level argument, and the flag\<close>

lemma batch_run_threw:
  "threwAt (batch_run what required body a h) h
     \<longleftrightarrow> a = Missing \<or> a = NotArray \<or> a = Array []"
proof (cases a)
  case (Array xs)
  then show ?thesis
    by (cases xs) (simp_all add: batch_run_def threwAt_def split: prod.splits)
qed (simp_all add: batch_run_def threwAt_def)

lemma batch_run_unflagged:
  "threwAt (batch_run what required body a h) h
     \<or> unflagged (batch_run what required body a h)"
proof (cases a)
  case (Array xs)
  then show ?thesis
    by (cases xs) (simp_all add: batch_run_def threwAt_def unflagged_def split: prod.splits)
qed (simp_all add: batch_run_def threwAt_def)

lemma batchMoveTasks_threw:
  "threwAt (batchMoveTasks r a h) h \<longleftrightarrow> a = Missing \<or> a = NotArray \<or> a = Array []"
proof (cases a)
  case (Array xs)
  then show ?thesis
    by (cases xs) (simp_all add: batchMoveTasks_def threwAt_def split: prod.splits)
qed (simp_all add: batchMoveTasks_def threwAt_def)

lemma batchMoveTasks_unflagged:
  "threwAt (batchMoveTasks r a h) h \<or> unflaggedMove (batchMoveTasks r a h)"
proof (cases a)
  case (Array xs)
  then show ?thesis
    by (cases xs)
       (simp_all add: batchMoveTasks_def threwAt_def unflaggedMove_def split: prod.splits)
qed (simp_all add: batchMoveTasks_def threwAt_def)

lemma createTask_missing:
  "d ''title'' = None \<Longrightarrow> createTask r d h = (Inl (''Task title is required'', d), h)"
  by (simp add: createTask_def present_None)

lemma updateTask_missing:
  "d ''taskListId'' = None \<or> d ''taskId'' = None
   \<Longrightarrow> updateTask r d h = (Inl (''Task list ID and task ID are required'', d), h)"
  by (auto simp add: updateTask_def present_None split: option.splits)

lemma deleteTask_missing:
  "d ''taskListId'' = None \<or> d ''taskId'' = None
   \<Longrightarrow> deleteTask r d h = (Inl (''Task list ID and task ID are required'', d), h)"
  by (auto simp add: deleteTask_def present_None split: option.splits)

lemma moveOne_missing:
  "d ''sourceTaskListId'' = None \<or> d ''targetTaskListId'' = None \<or> d ''taskId'' = None
   \<Longrightarrow> moveOne r d h =
        (Error (''Source task list ID, target task list ID, and task ID are required'', d), h)"
  by (auto simp add: moveOne_def present_None split: option.splits)

lemma createTaskList_missing:
  "d ''title'' = None \<Longrightarrow> createTaskList r d h = (Inl (''Task list title is required'', d), h)"
  by (simp add: createTaskList_def present_None)

lemma updateTaskList_missing:
  "d ''listId'' = None \<or> d ''title'' = None
   \<Longrightarrow> updateTaskList r d h = (Inl (''Task list ID and title are required'', d), h)"
  by (auto simp add: updateTaskList_def present_None split: option.splits)

lemma deleteTaskList_missing:
  "d ''listId'' = None \<Longrightarrow> deleteTaskList r d h = (Inl (''Task list ID is required'', d), h)"
  by (simp add: deleteTaskList_def present_None)

lemma createSubtaskOf_missing:
  "d ''parentTaskId'' = None \<or> d ''title'' = None
   \<Longrightarrow> createSubtaskOf r d h = (Inl (''Parent task ID and title are required'', d), h)"
  by (auto simp add: createSubtaskOf_def present_None Let_def split: option.splits)

lemma reorganizeTasks_threw:
  "threwAt (reorganizeTasks n r pm dry h) h \<longleftrightarrow> pm = None \<or> pm = Some []"
proof (cases pm)
  case None
  then show ?thesis by (simp add: reorganizeTasks_def threwAt_def)
next
  case (Some m)
  then show ?thesis
    by (cases m) (simp_all add: reorganizeTasks_def threwAt_def split: prod.splits sum.splits)
qed

lemma planStage_fails:
  "isl (fst (planStage n r m h)) \<longleftrightarrow>
     isl (tasklists_list r h MAX_TASK_RESULTS)
     \<or> isl (tasklists_list r (snd (private_list r h)) MAX_TASK_RESULTS)"
  by (auto simp add: planStage_def private_list_def api_tasklists_list_def
      split: prod.splits sum.splits)

lemma reorganizeTasks_flag:
  "\<exists>res. fst (reorganizeTasks n r (Some (e # es)) dry h) = Inr res
         \<and> (isError res \<longleftrightarrow> isl (fst (planStage n r (e # es) h)))"
  by (auto simp add: reorganizeTasks_def split: prod.splits sum.splits if_splits)

text \<open>
  C5, as stated, fails for \<open>reorganizeTasks\<close>: with a non-empty mapping and a service
  whose \<open>tasklists.list\<close> call fails, the operation does not throw, and the result it
  returns is flagged as an error.
\<close>

theorem reorganizeTasks_flagged_counterexample:
  "\<not> threwAt (reorganizeTasks id offline (Some [(''ADMIN'', ''Admin'')]) False []) []
   \<and> reorganizeTasks id offline (Some [(''ADMIN'', ''Admin'')]) False []
       = (Inr \<lparr>content = ''Error reorganizing tasks: Service unavailable'', isError = True\<rparr>,
          [TasklistsList 100])"
  by (simp add: reorganizeTasks_def planStage_def private_list_def api_tasklists_list_def
      offline_def MAX_TASK_RESULTS_def threwAt_def)

text \<open>
  C5, amended. Every batch operation throws, with no call issued, exactly when its array
  is missing, not an array or empty, and otherwise returns a result whose flag is false,
  whatever happens to the elements. \<open>reorganizeTasks\<close> throws, with no call issued,
  exactly when the mapping is missing or empty; otherwise it returns a result, whose flag
  is true exactly when one of the two \<open>tasklists.list\<close> calls of the enumeration fails,
  whatever happens to the moves. An element that lacks a required field is answered by an
  error entry carrying the element, and the history is left as it was: no call is issued
  for it.
\<close>

theorem validation_and_flag:
  "(threwAt (batchCreateTasks r a h) h \<longleftrightarrow> a = Missing \<or> a = NotArray \<or> a = Array [])
   \<and> (threwAt (batchCreateTasks r a h) h \<or> unflagged (batchCreateTasks r a h))
   \<and> (threwAt (batchUpdateTasks r a h) h \<longleftrightarrow> a = Missing \<or> a = NotArray \<or> a = Array [])
   \<and> (threwAt (batchUpdateTasks r a h) h \<or> unflagged (batchUpdateTasks r a h))
   \<and> (threwAt (batchDeleteTasks r a h) h \<longleftrightarrow> a = Missing \<or> a = NotArray \<or> a = Array [])
   \<and> (threwAt (batchDeleteTasks r a h) h \<or> unflagged (batchDeleteTasks r a h))
   \<and> (threwAt (batchMoveTasks r a h) h \<longleftrightarrow> a = Missing \<or> a = NotArray \<or> a = Array [])
   \<and> (threwAt (batchMoveTasks r a h) h \<or> unflaggedMove (batchMoveTasks r a h))
   \<and> (threwAt (batchCreateTaskLists r a h) h \<longleftrightarrow> a = Missing \<or> a = NotArray \<or> a = Array [])
   \<and> (threwAt (batchCreateTaskLists r a h) h \<or> unflagged (batchCreateTaskLists r a h))
   \<and> (threwAt (batchUpdateTaskLists r a h) h \<longleftrightarrow> a = Missing \<or> a = NotArray \<or> a = Array [])
   \<and> (threwAt (batchUpdateTaskLists r a h) h \<or> unflagged (batchUpdateTaskLists r a h))
   \<and> (threwAt (batchDeleteTaskLists r a h) h \<longleftrightarrow> a = Missing \<or> a = NotArray \<or> a = Array [])
   \<and> (threwAt (batchDeleteTaskLists r a h) h \<or> unflagged (batchDeleteTaskLists r a h))
   \<and> (threwAt (batchCreateSubtasks r a h) h \<longleftrightarrow> a = Missing \<or> a = NotArray \<or> a = Array [])
   \<and> (threwAt (batchCreateSubtasks r a h) h \<or> unflagged (batchCreateSubtasks r a h))
   \<and> (threwAt (reorganizeTasks n r pm dry h) h \<longleftrightarrow> pm = None \<or> pm = Some [])
   \<and> (pm = Some (e # es) \<longrightarrow>
        (\<exists>res. fst (reorganizeTasks n r pm dry h) = Inr res
           \<and> (isError res \<longleftrightarrow>
                 isl (tasklists_list r h MAX_TASK_RESULTS)
                 \<or> isl (tasklists_list r (snd (private_list r h)) MAX_TASK_RESULTS))))
   \<and> (d ''title'' = None \<longrightarrow>
        createTask r d h = (Inl (''Task title is required'', d), h)
        \<and> createTaskList r d h = (Inl (''Task list title is required'', d), h))
   \<and> (d ''taskListId'' = None \<or> d ''taskId'' = None \<longrightarrow>
        updateTask r d h = (Inl (''Task list ID and task ID are required'', d), h)
        \<and> deleteTask r d h = (Inl (''Task list ID and task ID are required'', d), h))
   \<and> (d ''sourceTaskListId'' = None \<or> d ''targetTaskListId'' = None \<or> d ''taskId'' = None \<longrightarrow>
        moveOne r d h =
          (Error (''Source task list ID, target task list ID, and task ID are required'', d),
           h))
   \<and> (d ''listId'' = None \<or> d ''title'' = None \<longrightarrow>
        updateTaskList r d h = (Inl (''Task list ID and title are required'', d), h))
   \<and> (d ''listId'' = None \<longrightarrow>
        deleteTaskList r d h = (Inl (''Task list ID is required'', d), h))
   \<and> (d ''parentTaskId'' = None \<or> d ''title'' = None \<longrightarrow>
        createSubtaskOf r d h = (Inl (''Parent task ID and title are required'', d), h))"
proof -
  have reorg: "pm = Some (e # es) \<longrightarrow>
        (\<exists>res. fst (reorganizeTasks n r pm dry h) = Inr res
           \<and> (isError res \<longleftrightarrow>
                 isl (tasklists_list r h MAX_TASK_RESULTS)
                 \<or> isl (tasklists_list r (snd (private_list r h)) MAX_TASK_RESULTS)))"
    using reorganizeTasks_flag [of n r e es dry h] planStage_fails [of n r "e # es" h]
    by auto
  show ?thesis
    unfolding batchCreateTasks_def batchUpdateTasks_def batchDeleteTasks_def
      batchCreateTaskLists_def batchUpdateTaskLists_def batchDeleteTaskLists_def
      batchCreateSubtasks_def
    by (intro conjI;
        (rule batch_run_threw batch_run_unflagged batchMoveTasks_threw
              batchMoveTasks_unflagged reorganizeTasks_threw reorg
         | simp add: createTask_missing updateTask_missing deleteTask_missing
              moveOne_missing createTaskList_missing updateTaskList_missing
              deleteTaskList_missing createSubtaskOf_missing))
qed

text \<open>
  The sample service with a locked task, a batch of one element that names a list and has
  no task id, and a mapping with one entry: the batch operations return unflagged, the
  element is refused with no call, and \<open>reorganizeTasks\<close> returns unflagged.
\<close>

theorem validation_and_flag_witness:
  "unflagged (batchDeleteTasks (service [inbox, work] [] []) (Array [[''taskListId'' \<mapsto> ''inbox'']]) [])
   \<and> deleteTask (service [inbox, work] [] []) [''taskListId'' \<mapsto> ''inbox''] []
       = (Inl (''Task list ID and task ID are required'', [''taskListId'' \<mapsto> ''inbox'']), [])
   \<and> moveOne (service [inbox, work] [] []) [''taskListId'' \<mapsto> ''inbox''] []
       = (Error (''Source task list ID, target task list ID, and task ID are required'',
                 [''taskListId'' \<mapsto> ''inbox'']), [])
   \<and> (\<exists>res. fst (reorganizeTasks id (service [inbox, work] [] [])
                    (Some [(''ADMIN'', ''Admin'')]) False []) = Inr res
          \<and> \<not> isError res)"
  using validation_and_flag
          [where r = "service [inbox, work] [] []" and h = "[]"
             and a = "Array [[''taskListId'' \<mapsto> ''inbox'']]"
             and d = "[''taskListId'' \<mapsto> ''inbox'']" and n = id
             and pm = "Some [(''ADMIN'', ''Admin'')]" and dry = False
             and e = "(''ADMIN'', ''Admin'')" and es = "[]"]
  by (auto simp add: service_def)


section \<open>A move whose delete fails: what the text says\<close>

lemma sublist_in_right: "sublist x b \<Longrightarrow> sublist x (a @ b)"
  by (simp add: sublist_append)

lemma join_contains: "x \<in> set xs \<Longrightarrow> sublist x (join sep xs)"
proof (induction sep xs rule: join.induct)
  case (1 sep)
  then show ?case by simp
next
  case (2 sep y)
  then show ?case by simp
next
  case (3 sep y z zs)
  show ?case
  proof (cases "x = y")
    case True
    then show ?thesis by simp
  next
    case False
    with 3 have "sublist x (join sep (z # zs))" by simp
    then have "sublist x (y @ sep @ join sep (z # zs))"
      by (intro sublist_in_right)
    then show ?thesis by simp
  qed
qed

lemma transfer_partial:
  assumes "tasks_get r h src tid = Inr orig"
    and "t_title orig = Some title" and "title \<noteq> []"
    and "tasks_insert r (h @ [TasksGet src tid]) tgt (copyOf orig) None = Inr resp"
    and "t_id resp = Some newTaskId" and "newTaskId \<noteq> []"
    and "tasks_delete r (h @ [TasksGet src tid, TasksInsert tgt (copyOf orig) None])
           (Some src) tid = Inl msg"
  shows "transfer r src tgt tid h =
           (Inr (NotDeleted title newTaskId msg),
            h @ [TasksGet src tid, TasksInsert tgt (copyOf orig) None,
                 TasksDelete (Some src) tid])"
  using assms
  by (simp add: present_Some transfer_def api_tasks_get_def api_tasks_insert_def api_tasks_delete_def)

lemma in_moveText:
  assumes "w \<in> set warnings"
  shows "sublist (warningLine w) (moveText results errors warnings)"
proof -
  from assms have ne: "warnings \<noteq> []" by auto
  from assms have "sublist (warningLine w) (join nl (map warningLine warnings))"
    by (intro join_contains) simp
  then obtain p q where j: "join nl (map warningLine warnings) = p @ warningLine w @ q"
    by (auto simp add: sublist_def)
  have "moveText results errors warnings =
      ((''Batch task move: '' @ show_nat (length results) @ '' succeeded, ''
        @ show_nat (length errors) @ '' failed''
        @ '', '' @ show_nat (length warnings) @ '' partial (created but not deleted)'')
       @ nl @ nl @ ''Successes:'' @ nl @ join nl (map moveLine results)
       @ nl @ nl @ ''Partial Successes (created but not deleted from source):'' @ nl @ p)
      @ warningLine w
      @ (q @ (if errors \<noteq> []
              then nl @ nl @ ''Errors:'' @ nl @ join nl (map errorLine errors)
              else []))"
    using ne j by (simp add: moveText_def)
  then show ?thesis by (simp only: sublist_appendI)
qed

lemma batchMove_loop_append:
  "batchMove_loop r (xs @ ys) rs es ws h =
     (case batchMove_loop r xs rs es ws h of
        (rs', es', ws', h') \<Rightarrow> batchMove_loop r ys rs' es' ws' h')"
  by (induction xs arbitrary: rs es ws h) (auto split: prod.splits move_entry.splits)

lemma batchMove_loop_keeps:
  "batchMove_loop r xs rs es ws h = (rs', es', ws', h') \<Longrightarrow> set ws \<subseteq> set ws'"
proof (induction xs arbitrary: rs es ws h)
  case Nil
  then show ?case by simp
next
  case (Cons x xs)
  then show ?case
    by (fastforce split: prod.splits move_entry.splits)
qed

lemma moveOne_partial:
  assumes "tasks_get r h src tid = Inr orig"
    and "t_title orig = Some title" and "title \<noteq> []"
    and "tasks_insert r (h @ [TasksGet src tid]) tgt (copyOf orig) None = Inr resp"
    and "t_id resp = Some newTaskId" and "newTaskId \<noteq> []"
    and "tasks_delete r (h @ [TasksGet src tid, TasksInsert tgt (copyOf orig) None])
           (Some src) tid = Inl msg"
    and "src \<noteq> []" and "tgt \<noteq> []" and "tid \<noteq> []"
    and "d ''sourceTaskListId'' = Some src" and "d ''targetTaskListId'' = Some tgt"
    and "d ''taskId'' = Some tid"
  shows "moveOne r d h =
           (Warning \<lparr>w_warning = ''Created task '' @ newTaskId @ '' in '' @ tgt
                          @ '' but failed to delete original: '' @ msg,
                      w_moveData = d, w_originalTaskId = tid,
                      w_newTaskId = newTaskId, w_title = title\<rparr>,
            h @ [TasksGet src tid, TasksInsert tgt (copyOf orig) None,
                 TasksDelete (Some src) tid])"
  using assms by (simp add: present_Some moveOne_def transfer_partial)

lemma batchMove_loop_extends:
  "batchMove_loop r xs rs es ws h = (rs', es', ws', h') \<Longrightarrow> \<exists>more. ws' = ws @ more"
proof (induction xs arbitrary: rs es ws h)
  case Nil
  then show ?case by simp
next
  case (Cons x xs)
  then show ?case
    by (fastforce split: prod.splits move_entry.splits)
qed

lemma moveText_ids:
  "moveText (map (\<lambda>v. v\<lparr>m_newTaskId := f v\<rparr>) rs) es
     (map (\<lambda>w. w\<lparr>w_warning := k w, w_newTaskId := g w\<rparr>) ws)
   = moveText rs es ws"
proof -
  have lines: "map moveLine (map (\<lambda>v. v\<lparr>m_newTaskId := f v\<rparr>) rs) = map moveLine rs"
    by (simp add: moveLine_def)
  have warnings:
    "map warningLine (map (\<lambda>w. w\<lparr>w_warning := k w, w_newTaskId := g w\<rparr>) ws)
       = map warningLine ws"
    by (simp add: warningLine_def)
  show ?thesis
    unfolding moveText_def lines warnings by simp
qed

text \<open>
  C2, as stated, fails. The sample service stores the copy under the identifier
  \<open>fresh\<close> and refuses to delete \<open>t2\<close>. The text \<open>moveTask\<close> returns names the title
  and the target list, and \<open>fresh\<close> occurs nowhere in it; the same holds of the text of
  \<open>batchMoveTasks\<close>, although the entry it pushed to \<open>warnings\<close> holds the identifier.
\<close>

theorem partial_move_text_counterexample:
  "tasks_insert (service [inbox, work] [plain ''t2'' ''Buy milk'' None] [''t2''])
       [TasksGet ''inbox'' ''t2''] ''work'' (copyOf (plain ''t2'' ''Buy milk'' None)) None
     = Inr (stored (copyOf (plain ''t2'' ''Buy milk'' None)) None)
   \<and> t_id (stored (copyOf (plain ''t2'' ''Buy milk'' None)) None) = Some ''fresh''
   \<and> moveTask (service [inbox, work] [plain ''t2'' ''Buy milk'' None] [''t2''])
        (Some ''inbox'') (Some ''work'') (Some ''t2'') []
     = (Inr \<lparr>content = ''Task '' @ dq @ ''Buy milk'' @ dq @ '' was copied to list '' @ dq
                 @ ''work'' @ dq @ '' but could not be deleted from source list.''
                 @ '' You may need to delete it manually.'',
             isError = False\<rparr>,
        [TasksGet ''inbox'' ''t2'',
         TasksInsert ''work'' (copyOf (plain ''t2'' ''Buy milk'' None)) None,
         TasksDelete (Some ''inbox'') ''t2''])
   \<and> \<not> sublist ''fresh''
         (''Task '' @ dq @ ''Buy milk'' @ dq @ '' was copied to list '' @ dq
            @ ''work'' @ dq @ '' but could not be deleted from source list.''
            @ '' You may need to delete it manually.'')
   \<and> (case fst (batchMoveTasks (service [inbox, work] [plain ''t2'' ''Buy milk'' None] [''t2''])
                  (Array [[''sourceTaskListId'' \<mapsto> ''inbox'', ''targetTaskListId'' \<mapsto> ''work'',
                           ''taskId'' \<mapsto> ''t2'']]) []) of
         Inl _ \<Rightarrow> False
       | Inr rep \<Rightarrow>
           map w_newTaskId (mv_warnings rep) = [''fresh'']
           \<and> content (mv_result rep) =
               ''Batch task move: 0 succeeded, 0 failed, 1 partial (created but not deleted)''
               @ nl @ nl @ ''Successes:'' @ nl
               @ nl @ nl @ ''Partial Successes (created but not deleted from source):'' @ nl
               @ ''- Task '' @ dq @ ''Buy milk'' @ dq @ '' copied to list '' @ dq @ ''work'' @ dq
               @ '' but not removed from '' @ dq @ ''inbox'' @ dq)
   \<and> \<not> sublist ''fresh''
         (''Batch task move: 0 succeeded, 0 failed, 1 partial (created but not deleted)''
          @ nl @ nl @ ''Successes:'' @ nl
          @ nl @ nl @ ''Partial Successes (created but not deleted from source):'' @ nl
          @ ''- Task '' @ dq @ ''Buy milk'' @ dq @ '' copied to list '' @ dq @ ''work'' @ dq
          @ '' but not removed from '' @ dq @ ''inbox'' @ dq)"
proof (intro conjI)
  show "\<not> sublist ''fresh''
         (''Task '' @ dq @ ''Buy milk'' @ dq @ '' was copied to list '' @ dq
            @ ''work'' @ dq @ '' but could not be deleted from source list.''
            @ '' You may need to delete it manually.'')"
    by code_simp
  show "\<not> sublist ''fresh''
         (''Batch task move: 0 succeeded, 0 failed, 1 partial (created but not deleted)''
          @ nl @ nl @ ''Successes:'' @ nl
          @ nl @ nl @ ''Partial Successes (created but not deleted from source):'' @ nl
          @ ''- Task '' @ dq @ ''Buy milk'' @ dq @ '' copied to list '' @ dq @ ''work'' @ dq
          @ '' but not removed from '' @ dq @ ''inbox'' @ dq)"
    by code_simp
qed (simp_all add: batchMoveTasks_def moveOne_def moveTask_def transfer_def present_def
      api_tasks_get_def api_tasks_insert_def api_tasks_delete_def service_def plain_def
      stored_def copyOf_def orElse_def moveText_def show_nat.simps digit_def warningLine_def
      tmpl_def)

text \<open>
  C2, amended. When the get and the insert of a move succeed and the delete fails, the
  text \<open>moveTask\<close> returns is the sentence built from the title of the task and the
  target list id, with \<open>isError\<close> false. In \<open>batchMoveTasks\<close>, for an element reached with
  the history \<open>h\<close> after the elements \<open>pre\<close>, which left the warnings \<open>ws\<close>: the batch
  returns with \<open>isError\<close> false, its text is the text \<open>moveText\<close> builds from the three
  arrays it returns, and the entry pushed to \<open>warnings\<close> for the element, next after
  \<open>ws\<close>, holds the new identifier and the title. The line of that entry, which the text
  contains, is built from the title, the target list id and the source list id. The text
  stays the same when the new identifiers held by the entries of \<open>results\<close> and
  \<open>warnings\<close>, and the \<open>warning\<close> strings that embed them, are replaced by any others:
  no identifier of a copy is printed.
\<close>

theorem partial_move_text:
  assumes get: "tasks_get r h src tid = Inr orig"
    and title: "t_title orig = Some title" "title \<noteq> []"
    and ins: "tasks_insert r (h @ [TasksGet src tid]) tgt (copyOf orig) None = Inr resp"
    and nid: "t_id resp = Some newTaskId" "newTaskId \<noteq> []"
    and del: "tasks_delete r (h @ [TasksGet src tid, TasksInsert tgt (copyOf orig) None])
                (Some src) tid = Inl msg"
    and ids: "src \<noteq> []" "tgt \<noteq> []" "tid \<noteq> []"
    and d: "d ''sourceTaskListId'' = Some src" "d ''targetTaskListId'' = Some tgt"
           "d ''taskId'' = Some tid"
    and before: "batchMove_loop r pre [] [] [] h0 = (rs, es, ws, h)"
  shows "fst (moveTask r (Some src) (Some tgt) (Some tid) h) =
           Inr \<lparr>content = ''Task '' @ dq @ title @ dq @ '' was copied to list '' @ dq @ tgt
                    @ dq @ '' but could not be deleted from source list.''
                    @ '' You may need to delete it manually.'',
                 isError = False\<rparr>
       \<and> (\<exists>rep w more.
              fst (batchMoveTasks r (Array (pre @ d # post)) h0) = Inr rep
              \<and> mv_result rep =
                  \<lparr>content = moveText (mv_results rep) (mv_errors rep) (mv_warnings rep),
                   isError = False\<rparr>
              \<and> mv_warnings rep = ws @ w # more
              \<and> w = \<lparr>w_warning = ''Created task '' @ newTaskId @ '' in '' @ tgt
                                   @ '' but failed to delete original: '' @ msg,
                      w_moveData = d, w_originalTaskId = tid,
                      w_newTaskId = newTaskId, w_title = title\<rparr>
              \<and> warningLine w =
                  ''- Task '' @ dq @ title @ dq @ '' copied to list '' @ dq @ tgt @ dq
                    @ '' but not removed from '' @ dq @ src @ dq
              \<and> sublist (''- Task '' @ dq @ title @ dq @ '' copied to list '' @ dq @ tgt @ dq
                          @ '' but not removed from '' @ dq @ src @ dq)
                   (content (mv_result rep))
              \<and> (\<forall>f g k.
                    moveText (map (\<lambda>v. v\<lparr>m_newTaskId := f v\<rparr>) (mv_results rep))
                      (mv_errors rep)
                      (map (\<lambda>w. w\<lparr>w_warning := k w, w_newTaskId := g w\<rparr>) (mv_warnings rep))
                    = content (mv_result rep)))"
proof -
  have one: "fst (moveTask r (Some src) (Some tgt) (Some tid) h) =
           Inr \<lparr>content = ''Task '' @ dq @ title @ dq @ '' was copied to list '' @ dq @ tgt
                    @ dq @ '' but could not be deleted from source list.''
                    @ '' You may need to delete it manually.'',
                 isError = False\<rparr>"
    using ids by (simp add: present_Some moveTask_def transfer_partial [OF get title ins nid del])
  define w where "w = \<lparr>w_warning = ''Created task '' @ newTaskId @ '' in '' @ tgt
                          @ '' but failed to delete original: '' @ msg,
                      w_moveData = d, w_originalTaskId = tid,
                      w_newTaskId = newTaskId, w_title = title\<rparr>"
  define h1 where "h1 = h @ [TasksGet src tid, TasksInsert tgt (copyOf orig) None,
                             TasksDelete (Some src) tid]"
  have step: "moveOne r d h = (Warning w, h1)"
    unfolding w_def h1_def by (rule moveOne_partial [OF get title ins nid del ids d])
  obtain rs' es' ws' h' where
    rest: "batchMove_loop r post rs es (ws @ [w]) h1 = (rs', es', ws', h')"
    by (cases "batchMove_loop r post rs es (ws @ [w]) h1") auto
  from batchMove_loop_extends [OF rest] obtain more where more: "ws' = ws @ w # more"
    by auto
  have whole: "batchMove_loop r (pre @ d # post) [] [] [] h0 = (rs', es', ws', h')"
    using before step rest by (simp add: batchMove_loop_append)
  have mem: "w \<in> set ws'" by (simp add: more)
  obtain y ys where nonempty: "pre @ d # post = y # ys"
    by (cases "pre @ d # post") auto
  have line: "warningLine w =
                ''- Task '' @ dq @ title @ dq @ '' copied to list '' @ dq @ tgt @ dq
                  @ '' but not removed from '' @ dq @ src @ dq"
    using d by (simp add: warningLine_def w_def tmpl_def)
  define rep where
    "rep = \<lparr>mv_results = rs', mv_errors = es', mv_warnings = ws',
            mv_result = \<lparr>content = moveText rs' es' ws', isError = False\<rparr>\<rparr>"
  have run: "fst (batchMoveTasks r (Array (pre @ d # post)) h0) = Inr rep"
    using whole unfolding nonempty rep_def by (simp add: batchMoveTasks_def)
  have res: "mv_result rep =
               \<lparr>content = moveText (mv_results rep) (mv_errors rep) (mv_warnings rep),
                isError = False\<rparr>"
    by (simp add: rep_def)
  have warns: "mv_warnings rep = ws @ w # more"
    by (simp add: rep_def more)
  have sub: "sublist (warningLine w) (content (mv_result rep))"
    using in_moveText [OF mem, of rs' es'] by (simp add: rep_def)
  have ni: "\<forall>f g k.
              moveText (map (\<lambda>v. v\<lparr>m_newTaskId := f v\<rparr>) (mv_results rep))
                (mv_errors rep)
                (map (\<lambda>w. w\<lparr>w_warning := k w, w_newTaskId := g w\<rparr>) (mv_warnings rep))
              = content (mv_result rep)"
    by (simp add: rep_def moveText_ids)
  have "\<exists>rep w more.
              fst (batchMoveTasks r (Array (pre @ d # post)) h0) = Inr rep
              \<and> mv_result rep =
                  \<lparr>content = moveText (mv_results rep) (mv_errors rep) (mv_warnings rep),
                   isError = False\<rparr>
              \<and> mv_warnings rep = ws @ w # more
              \<and> w = \<lparr>w_warning = ''Created task '' @ newTaskId @ '' in '' @ tgt
                                   @ '' but failed to delete original: '' @ msg,
                      w_moveData = d, w_originalTaskId = tid,
                      w_newTaskId = newTaskId, w_title = title\<rparr>
              \<and> warningLine w =
                  ''- Task '' @ dq @ title @ dq @ '' copied to list '' @ dq @ tgt @ dq
                    @ '' but not removed from '' @ dq @ src @ dq
              \<and> sublist (''- Task '' @ dq @ title @ dq @ '' copied to list '' @ dq @ tgt @ dq
                          @ '' but not removed from '' @ dq @ src @ dq)
                   (content (mv_result rep))
              \<and> (\<forall>f g k.
                    moveText (map (\<lambda>v. v\<lparr>m_newTaskId := f v\<rparr>) (mv_results rep))
                      (mv_errors rep)
                      (map (\<lambda>w. w\<lparr>w_warning := k w, w_newTaskId := g w\<rparr>) (mv_warnings rep))
                    = content (mv_result rep))"
    apply (rule exI [of _ rep])
    apply (rule exI [of _ w])
    apply (rule exI [of _ more])
    apply (intro conjI)
          apply (rule run)
         apply (rule res)
        apply (rule warns)
       apply (rule w_def)
      apply (rule line)
     apply (rule sub [unfolded line])
    apply (rule ni)
    done
  with one show ?thesis by (rule conjI)
qed

text \<open>The same service and task, as the only element of a batch and as a single move.\<close>

theorem partial_move_text_witness:
  "fst (moveTask (service [inbox, work] [plain ''t2'' ''Buy milk'' None] [''t2''])
          (Some ''inbox'') (Some ''work'') (Some ''t2'') []) =
     Inr \<lparr>content = ''Task '' @ dq @ ''Buy milk'' @ dq @ '' was copied to list '' @ dq
              @ ''work'' @ dq @ '' but could not be deleted from source list.''
              @ '' You may need to delete it manually.'',
           isError = False\<rparr>
   \<and> (\<exists>rep w more.
          fst (batchMoveTasks (service [inbox, work] [plain ''t2'' ''Buy milk'' None] [''t2''])
                 (Array [[''sourceTaskListId'' \<mapsto> ''inbox'', ''targetTaskListId'' \<mapsto> ''work'',
                          ''taskId'' \<mapsto> ''t2'']]) []) = Inr rep
          \<and> mv_result rep =
              \<lparr>content = moveText (mv_results rep) (mv_errors rep) (mv_warnings rep),
               isError = False\<rparr>
          \<and> mv_warnings rep = w # more
          \<and> w = \<lparr>w_warning = ''Created task '' @ ''fresh'' @ '' in '' @ ''work''
                               @ '' but failed to delete original: '' @ ''Forbidden'',
                  w_moveData = [''sourceTaskListId'' \<mapsto> ''inbox'',
                                ''targetTaskListId'' \<mapsto> ''work'', ''taskId'' \<mapsto> ''t2''],
                  w_originalTaskId = ''t2'', w_newTaskId = ''fresh'', w_title = ''Buy milk''\<rparr>
          \<and> warningLine w =
              ''- Task '' @ dq @ ''Buy milk'' @ dq @ '' copied to list '' @ dq @ ''work'' @ dq
                @ '' but not removed from '' @ dq @ ''inbox'' @ dq
          \<and> sublist (''- Task '' @ dq @ ''Buy milk'' @ dq @ '' copied to list '' @ dq @ ''work''
                      @ dq @ '' but not removed from '' @ dq @ ''inbox'' @ dq)
               (content (mv_result rep))
          \<and> (\<forall>f g k.
                moveText (map (\<lambda>v. v\<lparr>m_newTaskId := f v\<rparr>) (mv_results rep))
                  (mv_errors rep)
                  (map (\<lambda>w. w\<lparr>w_warning := k w, w_newTaskId := g w\<rparr>) (mv_warnings rep))
                = content (mv_result rep)))"
proof -
  let ?r = "service [inbox, work] [plain ''t2'' ''Buy milk'' None] [''t2'']"
  let ?orig = "plain ''t2'' ''Buy milk'' None"
  have get: "tasks_get ?r [] ''inbox'' ''t2'' = Inr ?orig"
    by (simp add: service_def plain_def)
  have title: "t_title ?orig = Some ''Buy milk''" "''Buy milk'' \<noteq> []"
    by (simp_all add: plain_def)
  have ins: "tasks_insert ?r ([] @ [TasksGet ''inbox'' ''t2'']) ''work'' (copyOf ?orig) None
               = Inr (stored (copyOf ?orig) None)"
    by (simp add: service_def)
  have nid: "t_id (stored (copyOf ?orig) None) = Some ''fresh''" "''fresh'' \<noteq> []"
    by (simp_all add: stored_def)
  have del: "tasks_delete ?r
               ([] @ [TasksGet ''inbox'' ''t2'', TasksInsert ''work'' (copyOf ?orig) None])
               (Some ''inbox'') ''t2'' = Inl ''Forbidden''"
    by (simp add: service_def)
  have ids: "''inbox'' \<noteq> []" "''work'' \<noteq> []" "''t2'' \<noteq> []"
    by simp_all
  have d: "[''sourceTaskListId'' \<mapsto> ''inbox'', ''targetTaskListId'' \<mapsto> ''work'',
            ''taskId'' \<mapsto> ''t2''] ''sourceTaskListId'' = Some ''inbox''"
    "[''sourceTaskListId'' \<mapsto> ''inbox'', ''targetTaskListId'' \<mapsto> ''work'',
      ''taskId'' \<mapsto> ''t2''] ''targetTaskListId'' = Some ''work''"
    "[''sourceTaskListId'' \<mapsto> ''inbox'', ''targetTaskListId'' \<mapsto> ''work'',
      ''taskId'' \<mapsto> ''t2''] ''taskId'' = Some ''t2''"
    by simp_all
  have before: "batchMove_loop ?r [] [] [] [] [] = ([], [], [], [])"
    by simp
  from partial_move_text [OF get title ins nid del ids d before, of "[]"]
  show ?thesis by (simp only: append_Nil)
qed


section \<open>A move: what is inserted\<close>

lemma transfer_inserts:
  assumes "tasks_get r h src tid = Inr orig" and "t_title orig = Some title" and "title \<noteq> []"
  shows "filter isTasksInsert (drop (length h) (snd (transfer r src tgt tid h)))
           = [TasksInsert tgt (copyOf orig) None]"
  using assms
  by (simp add: present_Some transfer_def api_tasks_get_def api_tasks_insert_def api_tasks_delete_def
      split: sum.splits option.splits)

lemma moveTask_history:
  "src \<noteq> [] \<Longrightarrow> tgt \<noteq> [] \<Longrightarrow> tid \<noteq> []
   \<Longrightarrow> snd (moveTask r (Some src) (Some tgt) (Some tid) h) = snd (transfer r src tgt tid h)"
  by (simp add: present_Some moveTask_def split: prod.splits sum.splits transfer_outcome.splits)

lemma moveOne_history:
  "src \<noteq> [] \<Longrightarrow> tgt \<noteq> [] \<Longrightarrow> tid \<noteq> []
   \<Longrightarrow> d ''sourceTaskListId'' = Some src \<Longrightarrow> d ''targetTaskListId'' = Some tgt
   \<Longrightarrow> d ''taskId'' = Some tid
   \<Longrightarrow> snd (moveOne r d h) = snd (transfer r src tgt tid h)"
  by (simp add: present_Some moveOne_def split: prod.splits sum.splits transfer_outcome.splits)

lemma copyOf_fields:
  assumes "t_title orig = Some title" and "title \<noteq> []"
  shows "b_title (copyOf orig) = title"
    and "b_notes (copyOf orig) = (case t_notes orig of None \<Rightarrow> [] | Some v \<Rightarrow> v)"
    and "b_due (copyOf orig) =
           (case t_due orig of None \<Rightarrow> None | Some v \<Rightarrow> if v = [] then None else Some v)"
    and "b_status (copyOf orig) =
           (case t_status orig of
              None \<Rightarrow> ''needsAction''
            | Some v \<Rightarrow> if v = [] then ''needsAction'' else v)"
  using assms by (simp_all add: copyOf_def orElse_def present_def split: option.splits)

text \<open>
  C6, as stated, fails where the source task carries an empty \<open>due\<close> or an empty
  \<open>status\<close>: both are present and both are falsy, so \<open>||\<close> replaces them. The task
  \<open>t9\<close> below has \<open>due\<close> and \<open>status\<close> equal to the empty string; the copy is inserted
  with no \<open>due\<close> and with the status \<open>needsAction\<close>.
\<close>

theorem transfer_copy_policy_counterexample:
  "tasks_get (service [inbox, work]
                [(plain ''t9'' ''Old'' None)\<lparr>t_due := Some [], t_status := Some []\<rparr>] [])
      [] ''inbox'' ''t9''
     = Inr \<lparr>t_id = Some ''t9'', t_title = Some ''Old'', t_notes = None, t_due = Some [],
            t_status = Some [], t_parent = None\<rparr>
   \<and> snd (moveTask (service [inbox, work]
                      [(plain ''t9'' ''Old'' None)\<lparr>t_due := Some [], t_status := Some []\<rparr>] [])
           (Some ''inbox'') (Some ''work'') (Some ''t9'') [])
     = [TasksGet ''inbox'' ''t9'',
        TasksInsert ''work''
          \<lparr>b_title = ''Old'', b_notes = [], b_due = None, b_status = ''needsAction''\<rparr> None,
        TasksDelete (Some ''inbox'') ''t9'']"
  by (simp add: moveTask_def transfer_def present_def api_tasks_get_def api_tasks_insert_def
      api_tasks_delete_def service_def plain_def stored_def copyOf_def orElse_def)

text \<open>
  C6, amended. When the get of a move succeeds with a task whose title is not empty,
  \<open>moveTask\<close> and the body of \<open>batchMoveTasks\<close> issue exactly one insert, into the target
  list and with no \<open>parent\<close> parameter. Its body has the title of the source; the notes of
  the source, or the empty string when they are absent; the \<open>due\<close> of the source, or none
  when it is absent or empty; the status of the source, or \<open>needsAction\<close> when it is
  absent or empty. The body has no field for a parent.
\<close>

theorem transfer_copy_policy:
  assumes get: "tasks_get r h src tid = Inr orig"
    and title: "t_title orig = Some title" "title \<noteq> []"
    and ids: "src \<noteq> []" "tgt \<noteq> []" "tid \<noteq> []"
    and d: "d ''sourceTaskListId'' = Some src" "d ''targetTaskListId'' = Some tgt"
           "d ''taskId'' = Some tid"
  shows "filter isTasksInsert
           (drop (length h) (snd (moveTask r (Some src) (Some tgt) (Some tid) h)))
          = [TasksInsert tgt (copyOf orig) None]
       \<and> filter isTasksInsert (drop (length h) (snd (moveOne r d h)))
          = [TasksInsert tgt (copyOf orig) None]
       \<and> b_title (copyOf orig) = title
       \<and> b_notes (copyOf orig) = (case t_notes orig of None \<Rightarrow> [] | Some v \<Rightarrow> v)
       \<and> b_due (copyOf orig) =
           (case t_due orig of None \<Rightarrow> None | Some v \<Rightarrow> if v = [] then None else Some v)
       \<and> b_status (copyOf orig) =
           (case t_status orig of
              None \<Rightarrow> ''needsAction''
            | Some v \<Rightarrow> if v = [] then ''needsAction'' else v)"
proof (intro conjI)
  show "filter isTasksInsert
          (drop (length h) (snd (moveTask r (Some src) (Some tgt) (Some tid) h)))
        = [TasksInsert tgt (copyOf orig) None]"
    using moveTask_history [OF ids, of r h] transfer_inserts [OF get title, of tgt] by simp
  show "filter isTasksInsert (drop (length h) (snd (moveOne r d h)))
        = [TasksInsert tgt (copyOf orig) None]"
    using moveOne_history [OF ids d, of r h] transfer_inserts [OF get title, of tgt] by simp
qed (rule copyOf_fields [OF title])+

text \<open>A task with notes and a due date, and a status left out, moved to \<open>work\<close>.\<close>

theorem transfer_copy_policy_witness:
  "filter isTasksInsert
     (snd (moveTask
             (service [inbox, work]
                [(plain ''t5'' ''Pay rent'' (Some ''t1''))
                   \<lparr>t_notes := Some ''by transfer'',
                    t_due := Some ''2025-01-31T00:00:00.000Z''\<rparr>] [])
             (Some ''inbox'') (Some ''work'') (Some ''t5'') []))
    = [TasksInsert ''work''
         \<lparr>b_title = ''Pay rent'', b_notes = ''by transfer'',
          b_due = Some ''2025-01-31T00:00:00.000Z'', b_status = ''needsAction''\<rparr> None]
   \<and> filter isTasksInsert
        (snd (moveOne
                (service [inbox, work]
                   [(plain ''t5'' ''Pay rent'' (Some ''t1''))
                      \<lparr>t_notes := Some ''by transfer'',
                       t_due := Some ''2025-01-31T00:00:00.000Z''\<rparr>] [])
                [''sourceTaskListId'' \<mapsto> ''inbox'', ''targetTaskListId'' \<mapsto> ''work'',
                 ''taskId'' \<mapsto> ''t5''] []))
    = [TasksInsert ''work''
         \<lparr>b_title = ''Pay rent'', b_notes = ''by transfer'',
          b_due = Some ''2025-01-31T00:00:00.000Z'', b_status = ''needsAction''\<rparr> None]"
proof -
  let ?orig = "(plain ''t5'' ''Pay rent'' (Some ''t1''))
                 \<lparr>t_notes := Some ''by transfer'', t_due := Some ''2025-01-31T00:00:00.000Z''\<rparr>"
  let ?r = "service [inbox, work] [?orig] []"
  let ?d = "[''sourceTaskListId'' \<mapsto> ''inbox'', ''targetTaskListId'' \<mapsto> ''work'',
             ''taskId'' \<mapsto> ''t5'']"
  have get: "tasks_get ?r [] ''inbox'' ''t5'' = Inr ?orig"
    by (simp add: service_def plain_def)
  have title: "t_title ?orig = Some ''Pay rent''" "''Pay rent'' \<noteq> []"
    by (simp_all add: plain_def)
  have ids: "''inbox'' \<noteq> []" "''work'' \<noteq> []" "''t5'' \<noteq> []"
    by simp_all
  have d: "?d ''sourceTaskListId'' = Some ''inbox''" "?d ''targetTaskListId'' = Some ''work''"
    "?d ''taskId'' = Some ''t5''"
    by simp_all
  have body: "copyOf ?orig =
      \<lparr>b_title = ''Pay rent'', b_notes = ''by transfer'',
       b_due = Some ''2025-01-31T00:00:00.000Z'', b_status = ''needsAction''\<rparr>"
    by (simp add: copyOf_def plain_def orElse_def present_def)
  note fact = transfer_copy_policy [OF get title ids d]
  from fact [THEN conjunct1] have "filter isTasksInsert
      (snd (moveTask ?r (Some ''inbox'') (Some ''work'') (Some ''t5'') []))
      = [TasksInsert ''work'' (copyOf ?orig) None]"
    by (simp only: list.size drop_0)
  moreover from fact [THEN conjunct2, THEN conjunct1]
  have "filter isTasksInsert (snd (moveOne ?r ?d []))
      = [TasksInsert ''work'' (copyOf ?orig) None]"
    by (simp only: list.size drop_0)
  ultimately show ?thesis
    by (simp only: body)
qed


section \<open>Reorganizing: which entry of the mapping routes a task\<close>

lemma routeTask_char:
  "routeTask resolve t title taskListId entries movePlans warns =
     (movePlans @ (case find (routable resolve title taskListId) entries of
                     None \<Rightarrow> []
                   | Some e \<Rightarrow> planOf resolve t e),
      warns @ map snd (filter (unresolved resolve title)
                         (takeWhile (\<lambda>e. \<not> routable resolve title taskListId e) entries)))"
proof (induction entries arbitrary: movePlans warns)
  case Nil
  then show ?case by simp
next
  case (Cons e entries)
  obtain pfx targetListTitle where e: "e = (pfx, targetListTitle)" by (cases e)
  show ?case
    unfolding e
    by (simp add: Cons.IH routable_def unresolved_def planOf_def split: option.splits)
qed

lemma planMoves_char:
  "planMoves resolve pm ts movePlans warns =
     (movePlans @ concat (map (firstRoute resolve pm) ts),
      warns @ concat (map (warnedFor resolve pm) ts))"
proof (induction ts arbitrary: movePlans warns)
  case Nil
  then show ?case by simp
next
  case (Cons t ts)
  show ?case
    by (simp add: Cons.IH routeTask_char firstRoute_def warnedFor_def split: option.splits)
qed

lemma firstRoute_length: "length (firstRoute resolve pm t) \<le> 1"
  by (simp add: firstRoute_def planOf_def split: option.splits)

lemma titled_Nil: "titled [] = []"
  by (simp add: titled_def map_filter_simps)

lemma titled_Cons:
  "titled (l # ls) =
     (case (present (l_title l), present (l_id l)) of
        (Some title, Some listId) \<Rightarrow> (title, listId) # titled ls
      | _ \<Rightarrow> titled ls)"
  by (simp add: titled_def map_filter_simps split: option.splits)

lemma titled_ids: "(title, []) \<notin> set (titled ls)"
  by (induction ls) (auto simp add: titled_Nil titled_Cons present_def split: option.splits if_splits)

lemma stored_keys:
  assumes "key \<noteq> ''__proto__''"
  shows "fold (\<lambda>l obj. case (present (l_title l), present (l_id l)) of
                      (Some title, Some listId) \<Rightarrow> setProperty obj (f title) listId
                    | _ \<Rightarrow> obj) ls obj0 key
         = (obj0 ++ map_of (rev (map (\<lambda>e. (f (fst e), snd e)) (titled ls)))) key"
proof -
  define g where "g = (\<lambda>(l :: tasklist) obj. case (present (l_title l), present (l_id l)) of
                      (Some title, Some listId) \<Rightarrow> setProperty obj (f title) listId
                    | _ \<Rightarrow> obj)"
  have "fold g ls obj0 key
         = (obj0 ++ map_of (rev (map (\<lambda>e. (f (fst e), snd e)) (titled ls)))) key"
  proof (induction ls arbitrary: obj0)
    case Nil
    then show ?case by (simp add: titled_Nil)
  next
    case (Cons l ls)
    have "fold g (l # ls) obj0 key = fold g ls (g l obj0) key" by simp
    also have "\<dots> = (g l obj0 ++ map_of (rev (map (\<lambda>e. (f (fst e), snd e)) (titled ls)))) key"
      by (rule Cons.IH)
    also have "\<dots> = (obj0 ++ map_of (rev (map (\<lambda>e. (f (fst e), snd e)) (titled (l # ls))))) key"
      using assms
      by (simp add: g_def titled_Cons setProperty_def map_add_def split: option.splits)
    finally show ?case .
  qed
  then show ?thesis by (simp add: g_def)
qed

lemma listIdByTitle_stored:
  "key \<noteq> ''__proto__'' \<Longrightarrow> listIdByTitle ls key = map_of (rev (titled ls)) key"
  using stored_keys [of key "\<lambda>t. t" ls Map.empty]
  by (simp add: listIdByTitle_def)

lemma listIdByNormalizedTitle_stored:
  "key \<noteq> ''__proto__'' \<Longrightarrow>
   listIdByNormalizedTitle n ls key
     = map_of (rev (map (\<lambda>e. (n (fst e), snd e)) (titled ls))) key"
  using stored_keys [of key n ls Map.empty]
  by (simp add: listIdByNormalizedTitle_def)

lemma truthy_stored:
  assumes "key \<notin> set inheritedNames"
    and "\<And>v. obj key = Some v \<Longrightarrow> v \<noteq> []"
  shows "truthy (getProperty obj key) = map_option ListId (obj key)"
  using assms by (cases "obj key") (simp_all add: truthy_def getProperty_def)

lemma proto_inherited: "key \<notin> set inheritedNames \<Longrightarrow> key \<noteq> ''__proto__''"
  by (auto simp add: inheritedNames_def)

lemma resolveTarget_found:
  assumes "targetListTitle \<notin> set inheritedNames"
    and "n targetListTitle \<notin> set inheritedNames"
  shows "resolveTarget n ls targetListTitle = foundTarget n ls targetListTitle"
proof -
  have a: "truthy (getProperty (listIdByTitle ls) targetListTitle)
             = map_option ListId (map_of (rev (titled ls)) targetListTitle)"
    using assms(1) proto_inherited [OF assms(1)]
    by (subst truthy_stored) (auto simp add: listIdByTitle_stored titled_ids dest!: map_of_SomeD)
  have b: "truthy (getProperty (listIdByNormalizedTitle n ls) (n targetListTitle))
             = map_option ListId
                 (map_of (rev (map (\<lambda>e. (n (fst e), snd e)) (titled ls))) (n targetListTitle))"
    using assms(2) proto_inherited [OF assms(2)]
    by (subst truthy_stored)
       (auto simp add: listIdByNormalizedTitle_stored titled_ids dest!: map_of_SomeD)
  show ?thesis
    by (simp add: resolveTarget_def foundTarget_def foundList_def a b split: option.splits)
qed

lemma firstRoute_cong:
  assumes "\<And>e. e \<in> set pm \<Longrightarrow> resolve (snd e) = resolve' (snd e)"
  shows "firstRoute resolve pm t = firstRoute resolve' pm t"
    and "warnedFor resolve pm t = warnedFor resolve' pm t"
proof -
  have r: "\<And>title taskListId e. e \<in> set pm \<Longrightarrow>
             routable resolve title taskListId e = routable resolve' title taskListId e"
    using assms by (simp add: routable_def)
  have u: "\<And>title e. e \<in> set pm \<Longrightarrow> unresolved resolve title e = unresolved resolve' title e"
    using assms by (simp add: unresolved_def)
  have p: "\<And>e. e \<in> set pm \<Longrightarrow> planOf resolve t e = planOf resolve' t e"
    using assms by (simp add: planOf_def)
  have f: "\<And>title taskListId.
             find (routable resolve title taskListId) pm = find (routable resolve' title taskListId) pm"
    using r by (intro find_cong) auto
  have fm: "\<And>title taskListId e. find (routable resolve' title taskListId) pm = Some e \<Longrightarrow> e \<in> set pm"
    by (auto simp add: find_Some_iff)
  show "firstRoute resolve pm t = firstRoute resolve' pm t"
    using f p fm by (auto simp add: firstRoute_def split: option.splits)
  have tw: "\<And>title taskListId.
      takeWhile (\<lambda>e. \<not> routable resolve title taskListId e) pm
        = takeWhile (\<lambda>e. \<not> routable resolve' title taskListId e) pm"
    using r by (intro takeWhile_cong) auto
  have fl: "\<And>title xs. set xs \<subseteq> set pm \<Longrightarrow>
      filter (unresolved resolve title) xs = filter (unresolved resolve' title) xs"
    using u by (intro filter_cong) auto
  show "warnedFor resolve pm t = warnedFor resolve' pm t"
  proof -
    have sub: "\<And>P. set (takeWhile P pm) \<subseteq> set pm"
      by (auto dest: set_takeWhileD)
    show ?thesis
      using tw fl [OF sub] by (simp add: warnedFor_def split: option.splits)
  qed
qed

lemma planStage_char:
  assumes "private_list r h = (Inr allTasks, h1)"
    and "tasklists_list r h1 MAX_TASK_RESULTS = Inr its"
  shows "planStage n r pm h =
           (Inr (concat (map (firstRoute (resolveTarget n (listsOf its)) pm) allTasks),
                 concat (map (warnedFor (resolveTarget n (listsOf its)) pm) allTasks)),
            h1 @ [TasklistsList MAX_TASK_RESULTS])"
  using assms by (simp add: planStage_def api_tasklists_list_def planMoves_char)

text \<open>
  C3, as stated, fails: the \<open>continue\<close> after the warning goes on with the next entry of
  the mapping, it does not leave the loop over the entries. The title \<open>[X][Y] Plan\<close>
  starts with \<open>[X]\<close> and with \<open>[X][Y]\<close>. The first entry matches and its target
  \<open>Nowhere\<close> resolves to no list, so a warning is recorded; the second entry is then
  tried, matches, and routes the task to \<open>work\<close>, where a run that is not dry moves it.
\<close>

theorem first_match_unresolved_counterexample:
  "startsWith ''[X][Y] Plan'' (''['' @ ''X'' @ '']'')
   \<and> resolveTarget id [inbox, work] ''Nowhere'' = None
   \<and> planStage id (service [inbox, work] [plain ''t3'' ''[X][Y] Plan'' None] [])
        [(''X'', ''Nowhere''), (''X][Y'', ''Work'')] []
      = (Inr ([\<lparr>pl_task = \<lparr>a_task = plain ''t3'' ''[X][Y] Plan'' None,
                            a_taskListId = Some ''inbox'', a_taskListTitle = Some ''Inbox''\<rparr>,
                pl_targetListId = ListId ''work'', pl_targetListTitle = ''Work'',
                pl_prefix = ''X][Y''\<rparr>],
              [''Nowhere'']),
         [TasklistsList 100, TasksList (Some ''inbox'') 100 None,
          TasksList (Some ''work'') 100 None, TasklistsList 100])
   \<and> snd (reorganizeTasks id (service [inbox, work] [plain ''t3'' ''[X][Y] Plan'' None] [])
           (Some [(''X'', ''Nowhere''), (''X][Y'', ''Work'')]) False [])
      = [TasklistsList 100, TasksList (Some ''inbox'') 100 None,
         TasksList (Some ''work'') 100 None, TasklistsList 100,
         TasksInsert ''work''
           \<lparr>b_title = ''[X][Y] Plan'', b_notes = [], b_due = None,
            b_status = ''needsAction''\<rparr> None,
         TasksDelete (Some ''inbox'') ''t3'']"
  by (simp add: reorganizeTasks_def planStage_def private_list_def api_tasklists_list_def
      api_tasks_list_def api_tasks_insert_def api_tasks_delete_def api_tasks_insert_into_def
      plannedTask_def orElse_def
      service_def inbox_def work_def plain_def stored_def present_def listsOf_def itemsOf_def
      withListInfo_def MAX_TASK_RESULTS_def resolveTarget_def listIdByTitle_def
      listIdByNormalizedTitle_def startsWith_def setProperty_def getProperty_def truthy_def
      inheritedNames_def)

text \<open>
  C3, amended. The entries of the mapping are tried in the order of \<open>Object.entries\<close>,
  which is the order of the list \<open>pm\<close>. The statement is for a mapping none of whose target
  titles is, as written or normalized, a name every object inherits; what the lookups give
  for such a name is left out here. For every enumerated task with a title, a list id and
  an id: an entry whose prefix matches and whose target title names no list, by the exact
  and by the normalized lookup, records a warning, and the next entry is tried; so is the
  next entry, with no warning, when the target is the list the task is in. The task is
  routed by the first entry whose prefix matches and whose target names another list, and
  by no entry after it: each task has at most one plan. \<open>allTasks\<close> is what the
  enumeration returned and \<open>its\<close> what the second \<open>tasklists.list\<close> call returned.
\<close>

theorem first_routable_entry_routes:
  assumes "private_list r h = (Inr allTasks, h1)"
    and "tasklists_list r h1 MAX_TASK_RESULTS = Inr its"
    and "plainTargets n pm"
  shows "planStage n r pm h =
           (Inr (concat (map (firstRoute (foundTarget n (listsOf its)) pm) allTasks),
                 concat (map (warnedFor (foundTarget n (listsOf its)) pm) allTasks)),
            h1 @ [TasklistsList MAX_TASK_RESULTS])
       \<and> length (firstRoute (foundTarget n (listsOf its)) pm t) \<le> 1"
proof -
  have same: "\<And>e. e \<in> set pm \<Longrightarrow>
                resolveTarget n (listsOf its) (snd e) = foundTarget n (listsOf its) (snd e)"
    using assms(3) by (intro resolveTarget_found) (auto simp add: plainTargets_def list_all_iff)
  have "firstRoute (resolveTarget n (listsOf its)) pm = firstRoute (foundTarget n (listsOf its)) pm"
    and "warnedFor (resolveTarget n (listsOf its)) pm = warnedFor (foundTarget n (listsOf its)) pm"
    using firstRoute_cong [of pm "resolveTarget n (listsOf its)" "foundTarget n (listsOf its)", OF same]
    by auto
  then show ?thesis
    using planStage_char [OF assms(1,2), of n pm]
      firstRoute_length [of "foundTarget n (listsOf its)" pm t]
    by simp
qed

text \<open>
  Two tasks in \<open>inbox\<close>. The title of the first starts with the prefixes of all three
  entries of the mapping: the first entry names no list and is warned about, the second
  names the list the task is in and is passed over, the third routes the task to \<open>work\<close>.
  The second task matches no prefix.
\<close>

theorem first_routable_entry_routes_witness:
  "planStage id
     (service [inbox, work]
        [plain ''t1'' ''[A][B][C] Plan'' None, plain ''t2'' ''Buy milk'' None] [])
     [(''A'', ''Nowhere''), (''A][B'', ''Inbox''), (''A][B][C'', ''Work'')] []
   = (Inr ([\<lparr>pl_task = \<lparr>a_task = plain ''t1'' ''[A][B][C] Plan'' None,
                         a_taskListId = Some ''inbox'', a_taskListTitle = Some ''Inbox''\<rparr>,
             pl_targetListId = ListId ''work'', pl_targetListTitle = ''Work'',
             pl_prefix = ''A][B][C''\<rparr>],
           [''Nowhere'']),
      [TasklistsList 100, TasksList (Some ''inbox'') 100 None,
       TasksList (Some ''work'') 100 None, TasklistsList 100])"
proof -
  let ?r = "service [inbox, work]
              [plain ''t1'' ''[A][B][C] Plan'' None, plain ''t2'' ''Buy milk'' None] []"
  let ?all = "[\<lparr>a_task = plain ''t1'' ''[A][B][C] Plan'' None,
                a_taskListId = Some ''inbox'', a_taskListTitle = Some ''Inbox''\<rparr>,
               \<lparr>a_task = plain ''t2'' ''Buy milk'' None,
                a_taskListId = Some ''inbox'', a_taskListTitle = Some ''Inbox''\<rparr>]"
  let ?h1 = "[TasklistsList 100, TasksList (Some ''inbox'') 100 None,
              TasksList (Some ''work'') 100 None]"
  let ?pm = "[(''A'', ''Nowhere''), (''A][B'', ''Inbox''), (''A][B][C'', ''Work'')]"
  have enum: "private_list ?r [] = (Inr ?all, ?h1)"
    by (simp add: private_list_def api_tasklists_list_def api_tasks_list_def service_def
        inbox_def work_def present_def listsOf_def itemsOf_def withListInfo_def
        MAX_TASK_RESULTS_def)
  have lists: "tasklists_list ?r ?h1 MAX_TASK_RESULTS = Inr (Some [inbox, work])"
    by (simp add: service_def)
  have plain: "plainTargets id ?pm"
    by (simp add: plainTargets_def inheritedNames_def)
  from first_routable_entry_routes [OF enum lists plain]
  show ?thesis
    by (simp add: firstRoute_def warnedFor_def routable_def unresolved_def planOf_def
        foundTarget_def foundList_def titled_def map_filter_simps listsOf_def
        inbox_def work_def plain_def present_def startsWith_def MAX_TASK_RESULTS_def)
qed


section \<open>Reorganizing: the calls that change the remote state\<close>

lemma private_list_loop_reads:
  "filter isMutation (snd (private_list_loop r ls acc h)) = filter isMutation h"
  by (induction ls arbitrary: acc h)
     (auto simp add: api_tasks_list_def split: option.splits sum.splits)

lemma planStage_reads:
  "filter isMutation (snd (planStage n r pm h)) = filter isMutation h"
proof -
  have "filter isMutation (snd (private_list r h)) = filter isMutation h"
    using private_list_loop_reads [of r _ "[]" "h @ [TasklistsList MAX_TASK_RESULTS]"]
    by (auto simp add: private_list_def api_tasklists_list_def split: sum.splits prod.splits)
       (metis snd_conv)
  then show ?thesis
    by (auto simp add: planStage_def api_tasklists_list_def split: sum.splits prod.splits)
qed

lemma api_tasks_insert_into_call:
  "snd (api_tasks_insert_into r targetListId b h) = h @ [insertCall targetListId b]"
  by (cases targetListId)
     (simp_all add: api_tasks_insert_into_def insertCall_def api_tasks_insert_def
        api_tasks_insert_inherited_def)

lemma executeMoves_step:
  assumes "present (t_title (a_task (pl_task p))) = Some title"
    and "present (t_id (a_task (pl_task p))) = Some taskId"
  shows "\<exists>b line. moved p b
           \<and> executeMoves r (p # ps) res s f h =
               executeMoves r ps (res @ [line]) (if snd b then s + 1 else s)
                 (if snd b then f else f + 1) (h @ fst b)"
proof -
  let ?I = "insertCall (pl_targetListId p) (plannedTask p title)"
  let ?D = "TasksDelete (a_taskListId (pl_task p)) taskId"
  from assms have raw: "t_title (a_task (pl_task p)) = Some title"
    "t_id (a_task (pl_task p)) = Some taskId"
    by (auto dest: present_SomeD)
  have m1: "moved p ([?I], False)" and m2: "moved p ([?I, ?D], False)"
    and m3: "moved p ([?I, ?D], True)"
    using raw by (simp_all add: moved_def)
  obtain ans where
    ins: "api_tasks_insert_into r (pl_targetListId p) (plannedTask p title) h = (ans, h @ [?I])"
    using api_tasks_insert_into_call [of r "pl_targetListId p" "plannedTask p title" h]
    by (cases "api_tasks_insert_into r (pl_targetListId p) (plannedTask p title) h") simp
  show ?thesis
  proof (cases ans)
    case (Inl msg)
    then show ?thesis
      using assms m1 ins
      by (intro exI [of _ "([?I], False)"] exI [of _ "failedLine title msg"]) simp
  next
    case (Inr resp)
    show ?thesis
    proof (cases "present (t_id resp)")
      case None
      then show ?thesis
        using assms m1 Inr ins
        by (intro exI [of _ "([?I], False)"]
              exI [of _ "failedLine title ''Failed to create new task - no ID returned''"])
           simp
    next
      case (Some newId)
      show ?thesis
      proof (cases "tasks_delete r (h @ [?I]) (a_taskListId (pl_task p)) taskId")
        case (Inl msg)
        then show ?thesis
          using assms m2 \<open>ans = Inr resp\<close> Some ins
          by (intro exI [of _ "([?I, ?D], False)"] exI [of _ "failedLine title msg"])
             (simp add: api_tasks_delete_def)
      next
        case (Inr u)
        then show ?thesis
          using assms m3 \<open>ans = Inr resp\<close> Some ins
          by (intro exI [of _ "([?I, ?D], True)"] exI [of _ "''- Moved '' @ fromTo title p"])
             (simp add: api_tasks_delete_def)
      qed
    qed
  qed
qed

lemma executeMoves_blocks:
  assumes "list_all planned plans"
  shows "\<exists>bos lines.
           executeMoves r plans res s f h =
             (res @ lines, s + length (filter snd bos),
              f + length (filter (\<lambda>b. \<not> snd b) bos), h @ concat (map fst bos))
           \<and> list_all2 moved plans bos"
  using assms
proof (induction plans arbitrary: res s f h)
  case Nil
  show ?case
    by (intro exI [of _ "[]"]) simp
next
  case (Cons p ps)
  from Cons.prems obtain title taskId where
    v: "present (t_title (a_task (pl_task p))) = Some title"
       "present (t_id (a_task (pl_task p))) = Some taskId"
    by (auto simp add: planned_def)
  from executeMoves_step [OF v, of r ps res s f h] obtain b line where
    m: "moved p b" and
    step: "executeMoves r (p # ps) res s f h =
             executeMoves r ps (res @ [line]) (if snd b then s + 1 else s)
               (if snd b then f else f + 1) (h @ fst b)"
    by blast
  from Cons.prems have "list_all planned ps" by simp
  from Cons.IH [OF this, of "res @ [line]" "if snd b then s + 1 else s"
                  "if snd b then f else f + 1" "h @ fst b"]
  obtain bos lines where
    rest: "executeMoves r ps (res @ [line]) (if snd b then s + 1 else s)
             (if snd b then f else f + 1) (h @ fst b) =
           ((res @ [line]) @ lines, (if snd b then s + 1 else s) + length (filter snd bos),
            (if snd b then f else f + 1) + length (filter (\<lambda>b. \<not> snd b) bos),
            (h @ fst b) @ concat (map fst bos))"
    and all: "list_all2 moved ps bos"
    by blast
  show ?case
    using m step rest all
    by (intro exI [of _ "b # bos"] exI [of _ "line # lines"]) simp
qed


lemma firstRoute_planned: "list_all planned (firstRoute resolve pm t)"
  by (simp add: firstRoute_def planOf_def planned_def split: option.splits)

lemma planStage_planned:
  assumes "planStage n r pm h = (Inr (plans, warns), h2)"
  shows "list_all planned plans"
proof -
  from assms obtain resolve ts where "plans = concat (map (firstRoute resolve pm) ts)"
    by (auto simp add: planStage_def planMoves_char split: prod.splits sum.splits)
  then show ?thesis
    by (simp add: list_all_iff) (metis firstRoute_planned list_all_iff)
qed

text \<open>
  A dry run leaves the calls that change the remote state as they were: whatever the
  mapping, it issues the two kinds of list call only. A run that is not dry, once the
  planning stage has returned its plans with the history \<open>h2\<close>, has issued no such call
  up to \<open>h2\<close>, and after \<open>h2\<close> it issues, plan by plan and for the plans only, the calls
  of that plan: for a move counted in the summary as a success, one insert and one delete
  of the original, and for a move counted as a failure the insert alone or the insert and
  the delete. When the planning stage fails there is no such call either.
\<close>

lemma reorganizeTasks_calls:
  "filter isMutation (snd (reorganizeTasks n r pm True h)) = filter isMutation h
   \<and> (planStage n r (e # es) h = (Inr (plans, warns), h2) \<longrightarrow>
        filter isMutation h2 = filter isMutation h
        \<and> (\<exists>bos lines.
              list_all2 moved plans bos
              \<and> reorganizeTasks n r (Some (e # es)) False h =
                  (Inr \<lparr>content =
                          join nl (((''Moving '' @ show_nat (length plans) @ '' tasks:'') # lines)
                                     @ [summaryLine (length (filter snd bos))
                                          (length (filter (\<lambda>b. \<not> snd b) bos))]),
                        isError = False\<rparr>,
                   h2 @ concat (map fst bos))))
   \<and> (isl (fst (planStage n r (e # es) h)) \<longrightarrow>
        filter isMutation (snd (reorganizeTasks n r (Some (e # es)) False h))
          = filter isMutation h)"
proof (intro conjI impI)
  show "filter isMutation (snd (reorganizeTasks n r pm True h)) = filter isMutation h"
  proof (cases pm)
    case None
    then show ?thesis by (simp add: reorganizeTasks_def)
  next
    case (Some m)
    show ?thesis
    proof (cases m)
      case Nil
      with Some show ?thesis by (simp add: reorganizeTasks_def)
    next
      case (Cons a as)
      have "snd (reorganizeTasks n r (Some (a # as)) True h) = snd (planStage n r (a # as) h)"
        by (simp add: reorganizeTasks_def split: prod.splits sum.splits)
      with Some Cons show ?thesis by (simp add: planStage_reads)
    qed
  qed
next
  assume st: "planStage n r (e # es) h = (Inr (plans, warns), h2)"
  from planStage_reads [of n r "e # es" h] st
  show "filter isMutation h2 = filter isMutation h" by simp
  from planStage_planned [OF st]
  have "list_all planned plans" .
  from executeMoves_blocks [OF this, of r "[''Moving '' @ show_nat (length plans) @ '' tasks:'']" 0 0 h2]
  obtain bos lines where
    run: "executeMoves r plans [''Moving '' @ show_nat (length plans) @ '' tasks:''] 0 0 h2 =
            ([''Moving '' @ show_nat (length plans) @ '' tasks:''] @ lines,
             0 + length (filter snd bos), 0 + length (filter (\<lambda>b. \<not> snd b) bos),
             h2 @ concat (map fst bos))"
    and all: "list_all2 moved plans bos"
    by blast
  show "\<exists>bos lines.
              list_all2 moved plans bos
              \<and> reorganizeTasks n r (Some (e # es)) False h =
                  (Inr \<lparr>content =
                          join nl (((''Moving '' @ show_nat (length plans) @ '' tasks:'') # lines)
                                     @ [summaryLine (length (filter snd bos))
                                          (length (filter (\<lambda>b. \<not> snd b) bos))]),
                        isError = False\<rparr>,
                   h2 @ concat (map fst bos))"
    using st run all
    by (intro exI [of _ bos] exI [of _ lines]) (simp add: reorganizeTasks_def)
next
  assume "isl (fst (planStage n r (e # es) h))"
  then have "snd (reorganizeTasks n r (Some (e # es)) False h) = snd (planStage n r (e # es) h)"
    by (auto simp add: reorganizeTasks_def split: prod.splits sum.splits)
  then show "filter isMutation (snd (reorganizeTasks n r (Some (e # es)) False h))
          = filter isMutation h"
    by (simp add: planStage_reads)
qed

text \<open>
  C4 fails on the code for a target title that names no list and is a name every object
  inherits. The mapping sends the prefix \<open>X\<close> to \<open>constructor\<close>, and neither \<open>inbox\<close> nor
  \<open>work\<close> has that title. The lookup in the plain object gives the inherited value, which
  is truthy, so the task \<open>[X] Plan\<close> is not passed over: a dry run announces its move,
  and a run that is not dry issues an insert with that value as its \<open>tasklist\<close>
  parameter. When the service refuses the insert, that call is the only one that changes
  the remote state; when the service accepts it, the original is deleted as well.
\<close>

theorem inherited_name_target_is_moved:
  "foundList id [inbox, work] ''constructor'' = None
   \<and> reorganizeTasks id (service [inbox, work] [plain ''t4'' ''[X] Plan'' None] [])
        (Some [(''X'', ''constructor'')]) True []
      = (Inr \<lparr>content = ''Would move 1 tasks:'' @ nl @ ''- '' @ dq @ ''[X] Plan'' @ dq
                  @ '' from '' @ dq @ ''Inbox'' @ dq @ '' to '' @ dq @ ''constructor'' @ dq,
              isError = False\<rparr>,
         [TasklistsList 100, TasksList (Some ''inbox'') 100 None,
          TasksList (Some ''work'') 100 None, TasklistsList 100])
   \<and> reorganizeTasks id (service [inbox, work] [plain ''t4'' ''[X] Plan'' None] [])
        (Some [(''X'', ''constructor'')]) False []
      = (Inr \<lparr>content = ''Moving 1 tasks:'' @ nl @ ''- FAILED to move '' @ dq @ ''[X] Plan''
                  @ dq @ '': Not Found'' @ nl @ nl
                  @ ''Summary: 0 tasks moved successfully, 1 failed.'',
              isError = False\<rparr>,
         [TasklistsList 100, TasksList (Some ''inbox'') 100 None,
          TasksList (Some ''work'') 100 None, TasklistsList 100,
          TasksInsertInherited ''constructor''
            \<lparr>b_title = ''[X] Plan'', b_notes = [], b_due = None,
             b_status = ''needsAction''\<rparr>])
   \<and> isMutation
         (TasksInsertInherited ''constructor''
            \<lparr>b_title = ''[X] Plan'', b_notes = [], b_due = None,
             b_status = ''needsAction''\<rparr>)
   \<and> reorganizeTasks id (lenient [inbox, work] [plain ''t4'' ''[X] Plan'' None] [])
        (Some [(''X'', ''constructor'')]) False []
      = (Inr \<lparr>content = ''Moving 1 tasks:'' @ nl @ ''- Moved '' @ dq @ ''[X] Plan'' @ dq
                  @ '' from '' @ dq @ ''Inbox'' @ dq @ '' to '' @ dq @ ''constructor'' @ dq
                  @ nl @ nl @ ''Summary: 1 tasks moved successfully, 0 failed.'',
              isError = False\<rparr>,
         [TasklistsList 100, TasksList (Some ''inbox'') 100 None,
          TasksList (Some ''work'') 100 None, TasklistsList 100,
          TasksInsertInherited ''constructor''
            \<lparr>b_title = ''[X] Plan'', b_notes = [], b_due = None,
             b_status = ''needsAction''\<rparr>,
          TasksDelete (Some ''inbox'') ''t4''])"
  by (simp add: reorganizeTasks_def planStage_def private_list_def api_tasklists_list_def
      api_tasks_list_def api_tasks_insert_def api_tasks_delete_def api_tasks_insert_into_def
      api_tasks_insert_inherited_def plannedTask_def orElse_def lenient_def
      service_def inbox_def work_def plain_def stored_def present_def listsOf_def itemsOf_def
      withListInfo_def MAX_TASK_RESULTS_def resolveTarget_def listIdByTitle_def
      listIdByNormalizedTitle_def startsWith_def setProperty_def getProperty_def truthy_def
      inheritedNames_def foundList_def titled_def map_filter_simps failedLine_def fromTo_def
      dryLine_def tmpl_def summaryLine_def show_nat.simps digit_def)


section \<open>Listing subtasks\<close>

text \<open>
  C7. With a parent id that is not empty, \<open>listSubtasks\<close> asks for one page of at most
  100 tasks of the list (the default list when none is named), then gets the parent. When
  both calls succeed, the tasks it prints are those of the page whose \<open>parent\<close> field is
  the requested id, in the order of the page, each with the list id attached: a task whose
  parent is another task, or that has no parent, is left out. When the get of the parent
  fails, the result is flagged as an error and names the failure; so it is when the page
  itself cannot be fetched, and the parent is then not asked for.
\<close>

theorem listSubtasks_children:
  assumes pid: "parentTaskId \<noteq> []"
    and lid: "taskListId = orElse taskListIdArg ''@default''"
  shows "(tasks_list r h (Some taskListId) MAX_TASK_RESULTS None = Inr page
          \<and> tasks_get r (h @ [TasksList (Some taskListId) MAX_TASK_RESULTS None])
                taskListId parentTaskId = Inr parentTask \<longrightarrow>
          listSubtasks formatTask r taskListIdArg (Some parentTaskId) h =
            (Inr \<lparr>content =
                    ''Found ''
                      @ show_nat (length (filter (\<lambda>t. t_parent t = Some parentTaskId)
                                            (itemsOf page)))
                      @ '' subtasks for '' @ dq @ orElse (t_title parentTask) ''Unknown task''
                      @ dq @ '':'' @ nl
                      @ formatTaskList formatTask
                          (map (\<lambda>t. \<lparr>a_task = t, a_taskListId = Some taskListId,
                                      a_taskListTitle = Some []\<rparr>)
                             (filter (\<lambda>t. t_parent t = Some parentTaskId) (itemsOf page))),
                  isError = False\<rparr>,
             h @ [TasksList (Some taskListId) MAX_TASK_RESULTS None,
                  TasksGet taskListId parentTaskId]))
       \<and> (tasks_list r h (Some taskListId) MAX_TASK_RESULTS None = Inr page
          \<and> tasks_get r (h @ [TasksList (Some taskListId) MAX_TASK_RESULTS None])
                taskListId parentTaskId = Inl msg \<longrightarrow>
          listSubtasks formatTask r taskListIdArg (Some parentTaskId) h =
            (Inr \<lparr>content = ''Error listing subtasks: '' @ ''Could not get parent task: '' @ msg,
                  isError = True\<rparr>,
             h @ [TasksList (Some taskListId) MAX_TASK_RESULTS None,
                  TasksGet taskListId parentTaskId]))
       \<and> (tasks_list r h (Some taskListId) MAX_TASK_RESULTS None = Inl msg \<longrightarrow>
          listSubtasks formatTask r taskListIdArg (Some parentTaskId) h =
            (Inr \<lparr>content = ''Error listing subtasks: '' @ msg, isError = True\<rparr>,
             h @ [TasksList (Some taskListId) MAX_TASK_RESULTS None]))"
proof -
  have ne: "taskListId \<noteq> []"
    unfolding lid by (simp add: orElse_def split: option.splits)
  show ?thesis
    using pid ne
    by (simp add: listSubtasks_def lid [symmetric] present_def api_tasks_list_def
        api_tasks_get_def Let_def)
qed

text \<open>
  A page with a parent \<open>t2\<close>, its children \<open>c1\<close> and \<open>c2\<close>, a grandchild \<open>g1\<close> and an
  unrelated task \<open>t1\<close>, printed by a formatter that shows the id alone; then a parent
  that does not exist.
\<close>

theorem listSubtasks_children_witness:
  "listSubtasks (\<lambda>t. tmpl (t_id (a_task t)))
     (service [inbox, work]
        [plain ''t2'' ''Buy milk'' None, plain ''c1'' ''Skimmed'' (Some ''t2''),
         plain ''g1'' ''One litre'' (Some ''c1''), plain ''t1'' ''Call mum'' None,
         plain ''c2'' ''Oat'' (Some ''t2'')] [])
     (Some ''inbox'') (Some ''t2'') []
   = (Inr \<lparr>content = ''Found 2 subtasks for '' @ dq @ ''Buy milk'' @ dq @ '':'' @ nl
                        @ ''c1'' @ nl @ ''c2'',
           isError = False\<rparr>,
      [TasksList (Some ''inbox'') 100 None, TasksGet ''inbox'' ''t2''])
   \<and> listSubtasks (\<lambda>t. tmpl (t_id (a_task t)))
       (service [inbox, work]
          [plain ''t2'' ''Buy milk'' None, plain ''c1'' ''Skimmed'' (Some ''t2''),
           plain ''g1'' ''One litre'' (Some ''c1''), plain ''t1'' ''Call mum'' None,
           plain ''c2'' ''Oat'' (Some ''t2'')] [])
       (Some ''inbox'') (Some ''zz'') []
     = (Inr \<lparr>content = ''Error listing subtasks: Could not get parent task: Not Found'',
             isError = True\<rparr>,
        [TasksList (Some ''inbox'') 100 None, TasksGet ''inbox'' ''zz''])"
proof -
  let ?ts = "[plain ''t2'' ''Buy milk'' None, plain ''c1'' ''Skimmed'' (Some ''t2''),
              plain ''g1'' ''One litre'' (Some ''c1''), plain ''t1'' ''Call mum'' None,
              plain ''c2'' ''Oat'' (Some ''t2'')]"
  let ?r = "service [inbox, work] ?ts []"
  let ?page = "\<lparr>pg_items = Some ?ts, pg_nextPageToken = None\<rparr>"
  have lid: "''inbox'' = orElse (Some ''inbox'') ''@default''"
    by (simp add: orElse_def)
  have page: "tasks_list ?r [] (Some ''inbox'') MAX_TASK_RESULTS None = Inr ?page"
    by (simp add: service_def MAX_TASK_RESULTS_def)
  have found: "tasks_get ?r ([] @ [TasksList (Some ''inbox'') MAX_TASK_RESULTS None])
                 ''inbox'' ''t2'' = Inr (plain ''t2'' ''Buy milk'' None)"
    by (simp add: service_def plain_def)
  have missing: "tasks_get ?r ([] @ [TasksList (Some ''inbox'') MAX_TASK_RESULTS None])
                   ''inbox'' ''zz'' = Inl ''Not Found''"
    by (simp add: service_def plain_def)
  have t2: "''t2'' \<noteq> []" and zz: "''zz'' \<noteq> []"
    by simp_all
  from listSubtasks_children [OF t2 lid, THEN conjunct1, THEN mp, OF conjI [OF page found]]
  have first: "listSubtasks (\<lambda>t. tmpl (t_id (a_task t))) ?r (Some ''inbox'') (Some ''t2'') []
     = (Inr \<lparr>content = ''Found 2 subtasks for '' @ dq @ ''Buy milk'' @ dq @ '':'' @ nl
                          @ ''c1'' @ nl @ ''c2'',
             isError = False\<rparr>,
        [TasksList (Some ''inbox'') 100 None, TasksGet ''inbox'' ''t2''])"
    by (simp add: itemsOf_def plain_def show_nat.simps digit_def formatTaskList_def tmpl_def
        orElse_def MAX_TASK_RESULTS_def)
  from listSubtasks_children
         [OF zz lid, THEN conjunct2, THEN conjunct1, THEN mp, OF conjI [OF page missing]]
  have second: "listSubtasks (\<lambda>t. tmpl (t_id (a_task t))) ?r (Some ''inbox'') (Some ''zz'') []
     = (Inr \<lparr>content = ''Error listing subtasks: Could not get parent task: Not Found'',
             isError = True\<rparr>,
        [TasksList (Some ''inbox'') 100 None, TasksGet ''inbox'' ''zz''])"
    by (simp add: MAX_TASK_RESULTS_def)
  from first second show ?thesis by (rule conjI)
qed


section \<open>Listing resources: the page and the cursor\<close>

lemma lastToken_Nil: "lastToken [] = None"
  by (simp add: lastToken_def map_filter_simps)

lemma lastToken_Cons:
  "lastToken (p # ps) =
     (case lastToken ps of None \<Rightarrow> present (pg_nextPageToken p) | Some t \<Rightarrow> Some t)"
  by (simp add: lastToken_def map_filter_simps split: option.splits list.splits)

lemma fetches_Nil: "fetches tok [] = []"
  by (simp add: fetches_def)

lemma fetches_Cons:
  "fetches tok (l # ls) = TasksList (l_id l) pageSize tok # fetches tok ls"
  by (simp add: fetches_def)

lemma list_loop_all:
  assumes "length pages = length ls"
    and "\<forall>k < length ls.
           tasks_list r (h @ fetches tok (take k ls)) (l_id (ls ! k)) pageSize tok
             = Inr (pages ! k)"
  shows "list_loop r tok ls acc nt h =
           (Inr (acc @ concat (map itemsOf pages),
                 (case lastToken pages of None \<Rightarrow> nt | Some t \<Rightarrow> Some t)),
            h @ fetches tok ls)"
  using assms
proof (induction ls arbitrary: pages acc nt h)
  case Nil
  then show ?case by (simp add: lastToken_Nil fetches_Nil)
next
  case (Cons l ls)
  from Cons.prems(1) obtain p ps where pages: "pages = p # ps" and len: "length ps = length ls"
    by (cases pages) auto
  from Cons.prems(2) [rule_format, of 0] pages
  have first: "tasks_list r h (l_id l) pageSize tok = Inr p" by (simp add: fetches_Nil)
  have "\<forall>k < length ls.
           tasks_list r ((h @ [TasksList (l_id l) pageSize tok]) @ fetches tok (take k ls))
             (l_id (ls ! k)) pageSize tok = Inr (ps ! k)"
  proof (intro allI impI)
    fix k
    assume "k < length ls"
    with Cons.prems(2) [rule_format, of "Suc k"] pages
    show "tasks_list r ((h @ [TasksList (l_id l) pageSize tok]) @ fetches tok (take k ls))
             (l_id (ls ! k)) pageSize tok = Inr (ps ! k)"
      by (simp add: fetches_Cons)
  qed
  from Cons.IH [OF len this] first pages show ?case
    by (simp add: api_tasks_list_def lastToken_Cons fetches_Cons split: option.splits)
qed

text \<open>
  C8, as stated, fails on empty strings, which the two tests of the code take for absent.
  A cursor that is present and empty is not passed as the page token. And a
  \<open>nextPageToken\<close> that is not null and is empty is not kept: below, the token of the
  last list is the empty string, and the cursor returned is the token of the list before.
\<close>

theorem resource_listing_page_counterexample:
  "snd (TaskResources_list (paged None None) (Some []) [])
     = [TasklistsList 100, TasksList (Some ''inbox'') 10 None,
        TasksList (Some ''work'') 10 None]
   \<and> tasks_list (paged (Some ''p2'') (Some []))
        [TasklistsList 100, TasksList (Some ''inbox'') 10 None] (Some ''work'') 10 None
     = Inr \<lparr>pg_items = Some [plain ''b1'' ''Second'' None], pg_nextPageToken = Some []\<rparr>
   \<and> TaskResources_list (paged (Some ''p2'') (Some [])) None []
     = (Inr ([plain ''a1'' ''First'' None, plain ''b1'' ''Second'' None], Some ''p2''),
        [TasklistsList 100, TasksList (Some ''inbox'') 10 None,
         TasksList (Some ''work'') 10 None])"
  by (simp add: TaskResources_list_def api_tasklists_list_def api_tasks_list_def paged_def
      service_def inbox_def work_def listsOf_def itemsOf_def present_def pageSize_def
      MAX_TASK_RESULTS_def)

text \<open>
  C8, amended. \<open>TaskResources.list\<close> asks every list for at most 10 tasks and passes the
  cursor of the caller, when it is present and not empty, as the page token of each of
  these calls. When the calls succeed, it returns the tasks of the pages in the order of
  the lists, and as cursor the last \<open>nextPageToken\<close> that is not empty among those of the
  pages, or none when there is no such token. \<open>pages ! k\<close> is the page the service
  returns for the list at position \<open>k\<close>, after the calls for the lists before it.
\<close>

theorem resource_listing_page:
  assumes lists: "tasklists_list r h MAX_TASK_RESULTS = Inr its"
    and tok: "pageToken = (if cursor = Some [] then None else cursor)"
    and len: "length pages = length (listsOf its)"
    and pages: "\<forall>k < length (listsOf its).
           tasks_list r
             (h @ TasklistsList MAX_TASK_RESULTS
                # map (\<lambda>l. TasksList (l_id l) 10 pageToken) (take k (listsOf its)))
             (l_id (listsOf its ! k)) 10 pageToken
           = Inr (pages ! k)"
  shows "TaskResources_list r cursor h =
           (Inr (concat (map itemsOf pages), lastToken pages),
            h @ TasklistsList MAX_TASK_RESULTS
              # map (\<lambda>l. TasksList (l_id l) 10 pageToken) (listsOf its))"
proof -
  have p: "present cursor = pageToken"
    unfolding tok by (rule present_cases)
  have f: "\<And>ls. fetches pageToken ls = map (\<lambda>l. TasksList (l_id l) 10 pageToken) ls"
    by (simp add: fetches_def pageSize_def)
  have "\<forall>k < length (listsOf its).
           tasks_list r ((h @ [TasklistsList MAX_TASK_RESULTS])
                          @ fetches pageToken (take k (listsOf its)))
             (l_id (listsOf its ! k)) pageSize pageToken = Inr (pages ! k)"
    using pages by (simp add: f pageSize_def)
  from list_loop_all [OF len this, of "[]" None]
  show ?thesis
    using lists
    by (simp add: TaskResources_list_def api_tasklists_list_def p f split: option.splits)
qed

text \<open>Two lists of one task each; the first page has a token, the second has none.\<close>

theorem resource_listing_page_witness:
  "TaskResources_list (paged (Some ''p2'') None) (Some ''p1'') []
   = (Inr ([plain ''a1'' ''First'' None, plain ''b1'' ''Second'' None], Some ''p2''),
      [TasklistsList 100, TasksList (Some ''inbox'') 10 (Some ''p1''),
       TasksList (Some ''work'') 10 (Some ''p1'')])"
proof -
  let ?r = "paged (Some ''p2'') None"
  let ?pages = "[\<lparr>pg_items = Some [plain ''a1'' ''First'' None],
                  pg_nextPageToken = Some ''p2''\<rparr>,
                 \<lparr>pg_items = Some [plain ''b1'' ''Second'' None],
                  pg_nextPageToken = None\<rparr>]"
  have lists: "tasklists_list ?r [] MAX_TASK_RESULTS = Inr (Some [inbox, work])"
    by (simp add: paged_def service_def)
  have tok: "Some ''p1'' = (if Some ''p1'' = Some [] then None else Some ''p1'')"
    by simp
  have len: "length ?pages = length (listsOf (Some [inbox, work]))"
    by (simp add: listsOf_def)
  have pages: "\<forall>k < length (listsOf (Some [inbox, work])).
           tasks_list ?r
             ([] @ TasklistsList MAX_TASK_RESULTS
                # map (\<lambda>l. TasksList (l_id l) 10 (Some ''p1''))
                    (take k (listsOf (Some [inbox, work]))))
             (l_id (listsOf (Some [inbox, work]) ! k)) 10 (Some ''p1'')
           = Inr (?pages ! k)"
    by (auto simp add: listsOf_def less_Suc_eq paged_def inbox_def work_def)
  from resource_listing_page [OF lists tok len pages]
  show ?thesis
    by (simp add: itemsOf_def lastToken_def map_filter_simps present_def listsOf_def
        inbox_def work_def MAX_TASK_RESULTS_def)
qed


section \<open>A list whose tasks cannot be fetched\<close>

lemma list_loop_append:
  "list_loop r tok (xs @ ys) acc nt h =
     (case list_loop r tok xs acc nt h of
        (Inl e, h') \<Rightarrow> (Inl e, h')
      | (Inr (acc', nt'), h') \<Rightarrow> list_loop r tok ys acc' nt' h')"
  by (induction xs arbitrary: acc nt h) (auto split: prod.splits sum.splits)

lemma private_list_loop_append:
  "private_list_loop r (xs @ ys) acc h =
     (case private_list_loop r xs acc h of
        (acc', h') \<Rightarrow> private_list_loop r ys acc' h')"
  by (induction xs arbitrary: acc h) (auto split: prod.splits sum.splits option.splits)

lemma private_list_loop_acc:
  "private_list_loop r xs (a @ b) h =
     (a @ fst (private_list_loop r xs b h), snd (private_list_loop r xs b h))"
proof (induction xs arbitrary: b h)
  case Nil
  then show ?case by simp
next
  case (Cons x xs)
  show ?case
    using Cons.IH [of b] Cons.IH [of "b @ _"]
    by (simp split: prod.splits sum.splits option.splits)
qed

text \<open>
  C9. Let the listing of the lists return \<open>pre\<close>, then \<open>l\<close>, then \<open>post\<close>. In
  \<open>TaskResources.list\<close>, when the pages of the lists \<open>pre\<close> have been fetched and the
  fetch for \<open>l\<close> fails, the operation throws that error: the tasks seen so far are not
  returned, and the lists \<open>post\<close> are not asked. In \<open>TaskActions._list\<close>, when the fetch
  for \<open>l\<close> fails, the operation returns the tasks seen so far followed by what the loop
  gathers from the lists \<open>post\<close>, starting after the failed call.
\<close>

theorem listing_failure_aborts_or_is_skipped:
  assumes lists: "tasklists_list r h MAX_TASK_RESULTS = Inr its"
    and split: "listsOf its = pre @ l # post"
  shows "(list_loop r (present cursor) pre [] None (h @ [TasklistsList MAX_TASK_RESULTS])
            = (Inr (seen, tok), h1)
          \<and> tasks_list r h1 (l_id l) pageSize (present cursor) = Inl e
          \<longrightarrow> TaskResources_list r cursor h
                = (Inl e, h1 @ [TasksList (l_id l) pageSize (present cursor)]))
       \<and> (private_list_loop r pre [] (h @ [TasklistsList MAX_TASK_RESULTS]) = (seen', h1')
          \<and> present (l_id l) = Some listId
          \<and> tasks_list r h1' (Some listId) MAX_TASK_RESULTS None = Inl e'
          \<longrightarrow> private_list r h
                = (Inr (seen' @ fst (private_list_loop r post []
                                       (h1' @ [TasksList (Some listId) MAX_TASK_RESULTS None]))),
                   snd (private_list_loop r post []
                          (h1' @ [TasksList (Some listId) MAX_TASK_RESULTS None]))))"
proof (intro conjI impI)
  assume "list_loop r (present cursor) pre [] None (h @ [TasklistsList MAX_TASK_RESULTS])
            = (Inr (seen, tok), h1)
          \<and> tasks_list r h1 (l_id l) pageSize (present cursor) = Inl e"
  then show "TaskResources_list r cursor h
                = (Inl e, h1 @ [TasksList (l_id l) pageSize (present cursor)])"
    using lists split
    by (simp add: TaskResources_list_def api_tasklists_list_def list_loop_append
        api_tasks_list_def)
next
  assume a: "private_list_loop r pre [] (h @ [TasklistsList MAX_TASK_RESULTS]) = (seen', h1')
          \<and> present (l_id l) = Some listId
          \<and> tasks_list r h1' (Some listId) MAX_TASK_RESULTS None = Inl e'"
  let ?h2 = "h1' @ [TasksList (Some listId) MAX_TASK_RESULTS None]"
  have "private_list_loop r (pre @ l # post) [] (h @ [TasklistsList MAX_TASK_RESULTS])
          = private_list_loop r post (seen' @ []) ?h2"
    using a by (simp add: private_list_loop_append api_tasks_list_def)
  also have "\<dots> = (seen' @ fst (private_list_loop r post [] ?h2),
                   snd (private_list_loop r post [] ?h2))"
    by (rule private_list_loop_acc)
  finally show "private_list r h
                = (Inr (seen' @ fst (private_list_loop r post [] ?h2)),
                   snd (private_list_loop r post [] ?h2))"
    using lists split by (simp add: private_list_def api_tasklists_list_def)
qed

text \<open>
  The lists \<open>inbox\<close>, \<open>gone\<close> and \<open>work\<close>, of which the service does not know the
  second: the resource listing throws, the enumeration of the tools skips it.
\<close>

theorem listing_failure_aborts_or_is_skipped_witness:
  "TaskResources_list (service [inbox, gone, work] [plain ''t1'' ''Buy milk'' None] []) None []
   = (Inl ''Not Found'',
      [TasklistsList 100, TasksList (Some ''inbox'') 10 None, TasksList (Some ''gone'') 10 None])
   \<and> private_list (service [inbox, gone, work] [plain ''t1'' ''Buy milk'' None] []) []
   = (Inr [\<lparr>a_task = plain ''t1'' ''Buy milk'' None, a_taskListId = Some ''inbox'',
            a_taskListTitle = Some ''Inbox''\<rparr>],
      [TasklistsList 100, TasksList (Some ''inbox'') 100 None,
       TasksList (Some ''gone'') 100 None, TasksList (Some ''work'') 100 None])"
proof -
  let ?r = "service [inbox, gone, work] [plain ''t1'' ''Buy milk'' None] []"
  have lists: "tasklists_list ?r [] MAX_TASK_RESULTS = Inr (Some [inbox, gone, work])"
    by (simp add: service_def)
  have split: "listsOf (Some [inbox, gone, work]) = [inbox] @ gone # [work]"
    by (simp add: listsOf_def)
  have a: "list_loop ?r (present None) [inbox] [] None ([] @ [TasklistsList MAX_TASK_RESULTS])
             = (Inr ([plain ''t1'' ''Buy milk'' None], None),
                [TasklistsList 100, TasksList (Some ''inbox'') 10 None])
           \<and> tasks_list ?r [TasklistsList 100, TasksList (Some ''inbox'') 10 None]
               (l_id gone) pageSize (present None) = Inl ''Not Found''"
    by (simp add: api_tasks_list_def service_def inbox_def gone_def itemsOf_def present_def
        pageSize_def MAX_TASK_RESULTS_def)
  have b: "private_list_loop ?r [inbox] [] ([] @ [TasklistsList MAX_TASK_RESULTS])
             = ([\<lparr>a_task = plain ''t1'' ''Buy milk'' None, a_taskListId = Some ''inbox'',
                  a_taskListTitle = Some ''Inbox''\<rparr>],
                [TasklistsList 100, TasksList (Some ''inbox'') 100 None])
           \<and> present (l_id gone) = Some ''gone''
           \<and> tasks_list ?r [TasklistsList 100, TasksList (Some ''inbox'') 100 None]
               (Some ''gone'') MAX_TASK_RESULTS None = Inl ''Not Found''"
    by (simp add: api_tasks_list_def service_def inbox_def gone_def itemsOf_def present_def
        withListInfo_def MAX_TASK_RESULTS_def)
  note fact = listing_failure_aborts_or_is_skipped [OF lists split]
  from fact [THEN conjunct1, THEN mp, OF a]
  have first: "TaskResources_list ?r None []
     = (Inl ''Not Found'',
        [TasklistsList 100, TasksList (Some ''inbox'') 10 None,
         TasksList (Some ''gone'') 10 None])"
    by (simp add: gone_def pageSize_def present_def)
  from fact [THEN conjunct2, THEN mp, OF b]
  have second: "private_list ?r []
     = (Inr [\<lparr>a_task = plain ''t1'' ''Buy milk'' None, a_taskListId = Some ''inbox'',
              a_taskListTitle = Some ''Inbox''\<rparr>],
        [TasklistsList 100, TasksList (Some ''inbox'') 100 None,
         TasksList (Some ''gone'') 100 None, TasksList (Some ''work'') 100 None])"
    by (simp add: api_tasks_list_def service_def work_def itemsOf_def present_def
        MAX_TASK_RESULTS_def)
  from first second show ?thesis by (rule conjI)
qed


section \<open>Reading a task by its identifier\<close>

lemma probes_Nil: "probes taskId [] = []"
  by (simp add: probes_def)

lemma probes_Cons:
  "probes taskId (l # ls) =
     (case present (l_id l) of None \<Rightarrow> [] | Some listId \<Rightarrow> [TasksGet listId taskId])
       @ probes taskId ls"
  by (simp add: probes_def)

lemma read_loop_none:
  assumes "\<forall>j < length ls. \<forall>listId. present (l_id (ls ! j)) = Some listId \<longrightarrow>
             isl (tasks_get r (h @ probes taskId (take j ls)) listId taskId)"
  shows "read_loop r taskId ls h = (None, h @ probes taskId ls)"
  using assms
proof (induction ls arbitrary: h)
  case Nil
  then show ?case by (simp add: probes_Nil)
next
  case (Cons l ls)
  show ?case
  proof (cases "present (l_id l)")
    case None
    have "\<forall>j < length ls. \<forall>listId. present (l_id (ls ! j)) = Some listId \<longrightarrow>
             isl (tasks_get r (h @ probes taskId (take j ls)) listId taskId)"
    proof (intro allI impI)
      fix j listId
      assume "j < length ls" and "present (l_id (ls ! j)) = Some listId"
      with Cons.prems [rule_format, of "Suc j" listId] None
      show "isl (tasks_get r (h @ probes taskId (take j ls)) listId taskId)"
        by (simp add: probes_Cons)
    qed
    from Cons.IH [OF this] None show ?thesis
      by (simp add: probes_Cons)
  next
    case (Some listId)
    from Cons.prems [rule_format, of 0 listId] Some
    have fail: "isl (tasks_get r h listId taskId)" by (simp add: probes_Nil)
    have "\<forall>j < length ls. \<forall>listId'. present (l_id (ls ! j)) = Some listId' \<longrightarrow>
             isl (tasks_get r ((h @ [TasksGet listId taskId]) @ probes taskId (take j ls))
                    listId' taskId)"
    proof (intro allI impI)
      fix j listId'
      assume "j < length ls" and "present (l_id (ls ! j)) = Some listId'"
      with Cons.prems [rule_format, of "Suc j" listId'] Some
      show "isl (tasks_get r ((h @ [TasksGet listId taskId]) @ probes taskId (take j ls))
                    listId' taskId)"
        by (simp add: probes_Cons)
    qed
    from Cons.IH [OF this] Some fail show ?thesis
      by (auto simp add: probes_Cons api_tasks_get_def isl_def)
  qed
qed

lemma read_loop_append:
  "read_loop r taskId (xs @ ys) h =
     (case read_loop r taskId xs h of
        (None, h') \<Rightarrow> read_loop r taskId ys h'
      | (Some t, h') \<Rightarrow> (Some t, h'))"
  by (induction xs arbitrary: h) (auto split: prod.splits sum.splits option.splits)

lemma read_loop_first:
  assumes k: "k < length ls"
    and id: "present (l_id (ls ! k)) = Some listId"
    and ok: "tasks_get r (h @ probes taskId (take k ls)) listId taskId = Inr t"
    and before: "\<forall>j < k. \<forall>listId'. present (l_id (ls ! j)) = Some listId' \<longrightarrow>
             isl (tasks_get r (h @ probes taskId (take j ls)) listId' taskId)"
  shows "read_loop r taskId ls h = (Some t, h @ probes taskId (take k ls) @ [TasksGet listId taskId])"
proof -
  from k have ls: "ls = take k ls @ ls ! k # drop (Suc k) ls"
    by (simp add: id_take_nth_drop)
  have "\<forall>j < length (take k ls). \<forall>listId'. present (l_id (take k ls ! j)) = Some listId' \<longrightarrow>
             isl (tasks_get r (h @ probes taskId (take j (take k ls))) listId' taskId)"
    using before k by (simp add: min_def)
  from read_loop_none [OF this]
  have pre: "read_loop r taskId (take k ls) h = (None, h @ probes taskId (take k ls))" .
  have "read_loop r taskId (take k ls @ ls ! k # drop (Suc k) ls) h =
          (Some t, h @ probes taskId (take k ls) @ [TasksGet listId taskId])"
    using pre id ok by (simp add: read_loop_append api_tasks_get_def)
  with ls show ?thesis by simp
qed

lemma read_loop_noneD:
  assumes "read_loop r taskId ls h = (None, h')"
  shows "\<forall>j < length ls. \<forall>listId. present (l_id (ls ! j)) = Some listId \<longrightarrow>
             isl (tasks_get r (h @ probes taskId (take j ls)) listId taskId)"
  using assms
proof (induction ls arbitrary: h)
  case Nil
  then show ?case by simp
next
  case (Cons l ls)
  show ?case
  proof (intro allI impI)
    fix j listId
    assume j: "j < length (l # ls)" and pid: "present (l_id ((l # ls) ! j)) = Some listId"
    show "isl (tasks_get r (h @ probes taskId (take j (l # ls))) listId taskId)"
    proof (cases "present (l_id l)")
      case None
      with Cons.prems have rest: "read_loop r taskId ls h = (None, h')" by simp
      from None pid obtain i where ji: "j = Suc i" by (cases j) auto
      with j pid Cons.IH [OF rest] None show ?thesis
        by (simp add: probes_Cons)
    next
      case (Some lid0)
      with Cons.prems have
        fail: "isl (tasks_get r h lid0 taskId)" and
        rest: "read_loop r taskId ls (h @ [TasksGet lid0 taskId]) = (None, h')"
        by (auto simp add: api_tasks_get_def split: sum.splits)
      show ?thesis
      proof (cases j)
        case 0
        with pid Some fail show ?thesis by (simp add: probes_Nil)
      next
        case (Suc i)
        with j pid Cons.IH [OF rest] Some show ?thesis
          by (simp add: probes_Cons)
      qed
    qed
  qed
qed


text \<open>
  C10. Let the listing of the lists succeed, and let \<open>taskId\<close> be the uri without its
  scheme. \<open>TaskResources.read\<close> probes the lists that have an id in their order, one get
  each. When the get for the list at position \<open>k\<close> succeeds and the get for every list
  before it failed, it returns the task of that list, and no list after it is probed: the
  earliest list that has the task wins. It throws \<open>Task not found\<close> exactly when the get
  for every list fails; each of these failures is passed over.
\<close>

theorem read_first_list_wins:
  assumes lists: "tasklists_list r h MAX_TASK_RESULTS = Inr its"
    and taskId: "taskId = removeFirst ''gtasks:///'' uri"
  shows "(k < length (listsOf its)
          \<and> present (l_id (listsOf its ! k)) = Some listId
          \<and> tasks_get r (h @ TasklistsList MAX_TASK_RESULTS
                            # probes taskId (take k (listsOf its))) listId taskId = Inr t
          \<and> (\<forall>j < k. \<forall>listId'. present (l_id (listsOf its ! j)) = Some listId' \<longrightarrow>
                isl (tasks_get r (h @ TasklistsList MAX_TASK_RESULTS
                                    # probes taskId (take j (listsOf its))) listId' taskId))
          \<longrightarrow> TaskResources_read r uri h
                = (Inr t, h @ TasklistsList MAX_TASK_RESULTS
                            # probes taskId (take k (listsOf its)) @ [TasksGet listId taskId]))
       \<and> (fst (TaskResources_read r uri h) = Inl ''Task not found''
          \<longleftrightarrow> (\<forall>j < length (listsOf its).
                 \<forall>listId'. present (l_id (listsOf its ! j)) = Some listId' \<longrightarrow>
                   isl (tasks_get r (h @ TasklistsList MAX_TASK_RESULTS
                                       # probes taskId (take j (listsOf its))) listId' taskId)))"
proof (intro conjI impI)
  assume a: "k < length (listsOf its)
          \<and> present (l_id (listsOf its ! k)) = Some listId
          \<and> tasks_get r (h @ TasklistsList MAX_TASK_RESULTS
                            # probes taskId (take k (listsOf its))) listId taskId = Inr t
          \<and> (\<forall>j < k. \<forall>listId'. present (l_id (listsOf its ! j)) = Some listId' \<longrightarrow>
                isl (tasks_get r (h @ TasklistsList MAX_TASK_RESULTS
                                    # probes taskId (take j (listsOf its))) listId' taskId))"
  then have "read_loop r taskId (listsOf its) (h @ [TasklistsList MAX_TASK_RESULTS])
               = (Some t, (h @ [TasklistsList MAX_TASK_RESULTS])
                            @ probes taskId (take k (listsOf its)) @ [TasksGet listId taskId])"
    by (intro read_loop_first) simp_all
  then show "TaskResources_read r uri h
                = (Inr t, h @ TasklistsList MAX_TASK_RESULTS
                            # probes taskId (take k (listsOf its)) @ [TasksGet listId taskId])"
    using lists by (simp add: TaskResources_read_def api_tasklists_list_def taskId [symmetric])
next
  let ?h1 = "h @ [TasklistsList MAX_TASK_RESULTS]"
  have run: "fst (TaskResources_read r uri h) = Inl ''Task not found''
               \<longleftrightarrow> fst (read_loop r taskId (listsOf its) ?h1) = None"
    using lists
    by (simp add: TaskResources_read_def api_tasklists_list_def taskId [symmetric]
        split: prod.splits option.splits)
  have "fst (read_loop r taskId (listsOf its) ?h1) = None
          \<longleftrightarrow> (\<forall>j < length (listsOf its).
                 \<forall>listId'. present (l_id (listsOf its ! j)) = Some listId' \<longrightarrow>
                   isl (tasks_get r (?h1 @ probes taskId (take j (listsOf its))) listId' taskId))"
  proof
    assume "fst (read_loop r taskId (listsOf its) ?h1) = None"
    then obtain h' where "read_loop r taskId (listsOf its) ?h1 = (None, h')"
      by (cases "read_loop r taskId (listsOf its) ?h1") auto
    then show "\<forall>j < length (listsOf its).
                 \<forall>listId'. present (l_id (listsOf its ! j)) = Some listId' \<longrightarrow>
                   isl (tasks_get r (?h1 @ probes taskId (take j (listsOf its))) listId' taskId)"
      by (rule read_loop_noneD)
  next
    assume "\<forall>j < length (listsOf its).
                 \<forall>listId'. present (l_id (listsOf its ! j)) = Some listId' \<longrightarrow>
                   isl (tasks_get r (?h1 @ probes taskId (take j (listsOf its))) listId' taskId)"
    from read_loop_none [OF this]
    show "fst (read_loop r taskId (listsOf its) ?h1) = None" by simp
  qed
  with run show "fst (TaskResources_read r uri h) = Inl ''Task not found''
          \<longleftrightarrow> (\<forall>j < length (listsOf its).
                 \<forall>listId'. present (l_id (listsOf its ! j)) = Some listId' \<longrightarrow>
                   isl (tasks_get r (h @ TasklistsList MAX_TASK_RESULTS
                                       # probes taskId (take j (listsOf its))) listId' taskId))"
    by simp
qed

text \<open>
  The lists \<open>work\<close> and \<open>inbox\<close> in this order, and a task held in \<open>inbox\<close>: the get
  for \<open>work\<close> fails and is passed over, the get for \<open>inbox\<close> succeeds. A task that no
  list holds is not found.
\<close>

theorem read_first_list_wins_witness:
  "TaskResources_read (service [work, inbox] [plain ''t1'' ''Buy milk'' None] [])
     ''gtasks:///t1'' []
   = (Inr (plain ''t1'' ''Buy milk'' None),
      [TasklistsList 100, TasksGet ''work'' ''t1'', TasksGet ''inbox'' ''t1''])
   \<and> fst (TaskResources_read (service [work, inbox] [plain ''t1'' ''Buy milk'' None] [])
            ''gtasks:///zz'' [])
     = Inl ''Task not found''"
proof -
  let ?r = "service [work, inbox] [plain ''t1'' ''Buy milk'' None] []"
  have lists: "tasklists_list ?r [] MAX_TASK_RESULTS = Inr (Some [work, inbox])"
    by (simp add: service_def)
  have t1: "''t1'' = removeFirst ''gtasks:///'' ''gtasks:///t1''"
    and zz: "''zz'' = removeFirst ''gtasks:///'' ''gtasks:///zz''"
    by (simp_all add: startsWith_def)
  have a: "1 < length (listsOf (Some [work, inbox]))
          \<and> present (l_id (listsOf (Some [work, inbox]) ! 1)) = Some ''inbox''
          \<and> tasks_get ?r ([] @ TasklistsList MAX_TASK_RESULTS
                            # probes ''t1'' (take 1 (listsOf (Some [work, inbox]))))
              ''inbox'' ''t1'' = Inr (plain ''t1'' ''Buy milk'' None)
          \<and> (\<forall>j < 1. \<forall>listId'. present (l_id (listsOf (Some [work, inbox]) ! j)) = Some listId' \<longrightarrow>
                isl (tasks_get ?r ([] @ TasklistsList MAX_TASK_RESULTS
                                    # probes ''t1'' (take j (listsOf (Some [work, inbox]))))
                       listId' ''t1''))"
    by (simp add: listsOf_def work_def inbox_def present_def service_def plain_def)
  have b: "\<forall>j < length (listsOf (Some [work, inbox])).
                 \<forall>listId'. present (l_id (listsOf (Some [work, inbox]) ! j)) = Some listId' \<longrightarrow>
                   isl (tasks_get ?r ([] @ TasklistsList MAX_TASK_RESULTS
                                       # probes ''zz'' (take j (listsOf (Some [work, inbox]))))
                          listId' ''zz'')"
    by (auto simp add: listsOf_def less_Suc_eq work_def inbox_def present_def service_def
        plain_def)
  from read_first_list_wins [OF lists t1, THEN conjunct1, THEN mp, OF a]
  have first: "TaskResources_read ?r ''gtasks:///t1'' []
     = (Inr (plain ''t1'' ''Buy milk'' None),
        [TasklistsList 100, TasksGet ''work'' ''t1'', TasksGet ''inbox'' ''t1''])"
    by (simp add: listsOf_def probes_def work_def present_def MAX_TASK_RESULTS_def)
  from read_first_list_wins [OF lists zz, THEN conjunct2, THEN iffD2, OF b]
  have second: "fst (TaskResources_read ?r ''gtasks:///zz'' []) = Inl ''Task not found''" .
  from first second show ?thesis by (rule conjI)
qed

end
